theory Spec2Isabelle
  imports Complex_Main
begin

section \<open>Numbers and JavaScript conventions\<close>

text \<open>
  The program computes with JavaScript numbers. They are embedded as \<^typ>\<open>real\<close>: sums,
  products and comparisons are those of exact arithmetic, and the order in which the
  source adds up a list is kept (\<open>reduce\<close> is \<^const>\<open>foldl\<close>). Periods and counts are
  \<^typ>\<open>nat\<close>. A value that may be \<open>null\<close> is an \<^typ>\<open>'a option\<close>. Where JavaScript
  would divide by zero the embedding has HOL's \<open>x / 0 = 0\<close>; the statements below that
  depend on a quotient carry the hypothesis that keeps the divisor non-zero.
\<close>

text \<open>\<open>!x\<close> for a number-or-null \<open>x\<close>: true for \<open>null\<close> and for \<open>0\<close>.\<close>

definition falsy :: "real option \<Rightarrow> bool" where
  "falsy x = (case x of None \<Rightarrow> True | Some v \<Rightarrow> v = 0)"

text \<open>\<open>xs.slice(-n)\<close>: the last \<open>n\<close> elements, the whole array when \<open>n\<close> is \<open>0\<close> or
  exceeds the length.\<close>

definition slice_last :: "nat \<Rightarrow> 'a list \<Rightarrow> 'a list" where
  "slice_last n xs = (if n = 0 then xs else drop (length xs - n) xs)"

text \<open>\<open>xs.slice(0, -1)\<close>: all but the last element.\<close>

definition slice_init :: "'a list \<Rightarrow> 'a list" where
  "slice_init xs = take (length xs - 1) xs"

section \<open>TradingAlgorithms\<close>

record pricePoint =
  timestamp :: int
  price :: real
  high :: real
  low :: real
  volume :: real

record quote =
  bid :: real
  ask :: real
  tick_volume :: real

datatype sigkind = buy | sell | hold

record signalT =
  signal :: sigkind
  confidence :: real
  reason :: string

type_synonym histories = "string \<rightharpoonup> pricePoint list"

definition maxHistory :: nat where
  "maxHistory = 200"

definition addPriceData :: "histories \<Rightarrow> string \<Rightarrow> 'a quote_scheme \<Rightarrow> int \<Rightarrow> histories" where
  "addPriceData ph symbol p ts =
     (let history = (case ph symbol of None \<Rightarrow> [] | Some h \<Rightarrow> h);
          m = (bid p + ask p) / 2;
          pushed = history @
            [\<lparr>timestamp = ts, price = m,
              high = m + (ask p - bid p) / 2,
              low = m - (ask p - bid p) / 2,
              volume = tick_volume p\<rparr>];
          kept = (if length pushed > maxHistory
                  then drop (length pushed - maxHistory) pushed else pushed)
      in ph(symbol \<mapsto> kept))"

definition getPriceHistory :: "histories \<Rightarrow> string \<Rightarrow> nat option \<Rightarrow> pricePoint list" where
  "getPriceHistory ph symbol periods =
     (let history = (case ph symbol of None \<Rightarrow> [] | Some h \<Rightarrow> h)
      in case periods of
           None \<Rightarrow> history
         | Some n \<Rightarrow> if n = 0 then history else slice_last n history)"

definition sum_prices :: "pricePoint list \<Rightarrow> real" where
  "sum_prices items = foldl (\<lambda>acc item. acc + price item) 0 items"

definition calculateSMA :: "histories \<Rightarrow> string \<Rightarrow> nat \<Rightarrow> real option" where
  "calculateSMA ph symbol period =
     (let history = getPriceHistory ph symbol (Some period)
      in if length history < period then None
         else Some (sum_prices history / real period))"

definition getSMACrossoverSignal :: "histories \<Rightarrow> string \<Rightarrow> nat \<Rightarrow> nat \<Rightarrow> signalT" where
  "getSMACrossoverSignal ph symbol shortPeriod longPeriod =
     (let shortSMA = calculateSMA ph symbol shortPeriod;
          longSMA = calculateSMA ph symbol longPeriod
      in if falsy shortSMA \<or> falsy longSMA
         then \<lparr>signal = hold, confidence = 0, reason = ''insufficient_data''\<rparr>
         else
           let history = getPriceHistory ph symbol None
           in if length history < longPeriod + 1
              then \<lparr>signal = hold, confidence = 0, reason = ''insufficient_history''\<rparr>
              else
                let s = the shortSMA; l = the longSMA;
                    prevHistory = slice_init history;
                    prevShortSum = sum_prices (slice_last shortPeriod prevHistory);
                    prevLongSum = sum_prices (slice_last longPeriod prevHistory);
                    prevShortSMA = prevShortSum / real shortPeriod;
                    prevLongSMA = prevLongSum / real longPeriod;
                    currentCross = (s > l);
                    prevCross = (prevShortSMA > prevLongSMA)
                in if currentCross \<and> \<not> prevCross
                   then \<lparr>signal = buy, confidence = min (((s - l) / l) * 100) 1,
                         reason = ''golden_cross''\<rparr>
                   else if \<not> currentCross \<and> prevCross
                   then \<lparr>signal = sell, confidence = min (((l - s) / s) * 100) 1,
                         reason = ''death_cross''\<rparr>
                   else \<lparr>signal = hold, confidence = 0, reason = ''no_crossover''\<rparr>)"

text \<open>The loop of \<open>calculateRSI\<close>: index \<open>i\<close> runs from \<open>1\<close> to the end of the window,
  pushing one entry to \<open>gains\<close> and one to \<open>losses\<close> at each step.\<close>

function rsi_loop :: "pricePoint list \<Rightarrow> nat \<Rightarrow> real list \<Rightarrow> real list \<Rightarrow> real list \<times> real list" where
  "rsi_loop history i gains losses =
     (if i < length history
      then let change = price (history ! i) - price (history ! (i - 1))
           in if change > 0
              then rsi_loop history (i + 1) (gains @ [change]) (losses @ [0])
              else rsi_loop history (i + 1) (gains @ [0]) (losses @ [\<bar>change\<bar>])
      else (gains, losses))"
  by pat_completeness auto
termination
  by (relation "measure (\<lambda>(history, i, gains, losses). length history - i)") auto

declare rsi_loop.simps [simp del]

definition calculateRSI :: "histories \<Rightarrow> string \<Rightarrow> nat \<Rightarrow> real option" where
  "calculateRSI ph symbol period =
     (let history = getPriceHistory ph symbol (Some (period + 1))
      in if length history < period + 1 then None
         else
           let (gains, losses) = rsi_loop history 1 [] [];
               avgGain = foldl (\<lambda>sum gain. sum + gain) 0 gains / real period;
               avgLoss = foldl (\<lambda>sum loss. sum + loss) 0 losses / real period
           in if avgLoss = 0 then Some 100
              else let rs = avgGain / avgLoss
                   in Some (100 - (100 / (1 + rs))))"

definition getRSISignal :: "histories \<Rightarrow> string \<Rightarrow> nat \<Rightarrow> real \<Rightarrow> real \<Rightarrow> signalT" where
  "getRSISignal ph symbol period overbought oversold =
     (case calculateRSI ph symbol period of
        None \<Rightarrow> \<lparr>signal = hold, confidence = 0, reason = ''insufficient_data''\<rparr>
      | Some rsi \<Rightarrow>
          if rsi > overbought
          then \<lparr>signal = sell,
                confidence = min ((rsi - overbought) / (100 - overbought)) 1,
                reason = ''overbought''\<rparr>
          else if rsi < oversold
          then \<lparr>signal = buy, confidence = min ((oversold - rsi) / oversold) 1,
                reason = ''oversold''\<rparr>
          else \<lparr>signal = hold, confidence = 0, reason = ''neutral''\<rparr>)"

record bands =
  middle :: real
  upper :: real
  lower :: real
  bandwidth :: real

definition calculateBollingerBands :: "histories \<Rightarrow> string \<Rightarrow> nat \<Rightarrow> real \<Rightarrow> bands option" where
  "calculateBollingerBands ph symbol period standardDeviations =
     (let history = getPriceHistory ph symbol (Some period)
      in if length history < period then None
         else
           let prices = map price history;
               sma = foldl (\<lambda>sum p. sum + p) 0 prices / real period;
               squaredDifferences = map (\<lambda>p. (p - sma) ^ 2) prices;
               variance = foldl (\<lambda>sum d. sum + d) 0 squaredDifferences / real period;
               stdDev = sqrt variance
           in Some \<lparr>middle = sma,
                    upper = sma + (standardDeviations * stdDev),
                    lower = sma - (standardDeviations * stdDev),
                    bandwidth = (2 * standardDeviations * stdDev) / sma * 100\<rparr>)"

definition getBollingerBandsSignal :: "histories \<Rightarrow> string \<Rightarrow> nat \<Rightarrow> real \<Rightarrow> signalT" where
  "getBollingerBandsSignal ph symbol period standardDeviations =
     (let bs = calculateBollingerBands ph symbol period standardDeviations;
          history = getPriceHistory ph symbol (Some 1)
      in case bs of
           None \<Rightarrow> \<lparr>signal = hold, confidence = 0, reason = ''insufficient_data''\<rparr>
         | Some b \<Rightarrow>
             if length history = 0
             then \<lparr>signal = hold, confidence = 0, reason = ''insufficient_data''\<rparr>
             else
               let currentPrice = price (history ! (length history - 1))
               in if currentPrice > upper b
                  then \<lparr>signal = sell,
                        confidence = min ((currentPrice - upper b) / (upper b - middle b)) 1,
                        reason = ''above_upper_band''\<rparr>
                  else if currentPrice < lower b
                  then \<lparr>signal = buy,
                        confidence = min ((lower b - currentPrice) / (middle b - lower b)) 1,
                        reason = ''below_lower_band''\<rparr>
                  else \<lparr>signal = hold, confidence = 0, reason = ''within_bands''\<rparr>)"

text \<open>The result of \<open>getCombinedSignal\<close>: the consensus and the three component signals
  it was computed from (\<open>components: {sma, rsi, bb}\<close>). The counts are absent from the
  early return for no valid signal.\<close>

record combinedSignal = signalT +
  sma :: signalT
  rsi :: signalT
  bb :: signalT
  buyCount :: "nat option"
  sellCount :: "nat option"
  totalSignals :: "nat option"

text \<open>The body of \<open>getCombinedSignal\<close> after the three strategies have been called.\<close>

definition combineSignals :: "signalT \<Rightarrow> signalT \<Rightarrow> signalT \<Rightarrow> combinedSignal" where
  "combineSignals smaSignal rsiSignal bbSignal =
     (let signals = [smaSignal, rsiSignal, bbSignal];
          validSignals = filter (\<lambda>s. confidence s > 0) signals
      in if length validSignals = 0
         then \<lparr>signal = hold, confidence = 0, reason = ''no_valid_signals'',
               sma = smaSignal, rsi = rsiSignal, bb = bbSignal,
               buyCount = None, sellCount = None, totalSignals = None\<rparr>
         else
           let buySignals = filter (\<lambda>s. signal s = buy) validSignals;
               sellSignals = filter (\<lambda>s. signal s = sell) validSignals;
               (finalSignal, conf) =
                 (if length buySignals > length sellSignals
                  then (buy, foldl (\<lambda>sum s. sum + confidence s) 0 buySignals
                               / real (length buySignals))
                  else if length sellSignals > length buySignals
                  then (sell, foldl (\<lambda>sum s. sum + confidence s) 0 sellSignals
                                / real (length sellSignals))
                  else (hold, 0))
           in \<lparr>signal = finalSignal, confidence = min conf 1,
                reason = ''combined_analysis'',
                sma = smaSignal, rsi = rsiSignal, bb = bbSignal,
                buyCount = Some (length buySignals),
                sellCount = Some (length sellSignals),
                totalSignals = Some (length validSignals)\<rparr>)"

record options =
  smaShort :: nat
  smaLong :: nat
  rsiPeriod :: nat
  rsiOverbought :: real
  rsiOversold :: real
  bbPeriod :: nat
  bbStdDev :: real

text \<open>The defaults of the destructured \<open>options\<close> argument.\<close>

definition defaultOptions :: options where
  "defaultOptions = \<lparr>smaShort = 10, smaLong = 50, rsiPeriod = 14, rsiOverbought = 70,
     rsiOversold = 30, bbPeriod = 20, bbStdDev = 2\<rparr>"

definition getCombinedSignal :: "histories \<Rightarrow> string \<Rightarrow> options \<Rightarrow> combinedSignal" where
  "getCombinedSignal ph symbol opts =
     combineSignals
       (getSMACrossoverSignal ph symbol (smaShort opts) (smaLong opts))
       (getRSISignal ph symbol (rsiPeriod opts) (rsiOverbought opts) (rsiOversold opts))
       (getBollingerBandsSignal ph symbol (bbPeriod opts) (bbStdDev opts))"

section \<open>TradingEngine\<close>

text \<open>
  The engine is constructed on the \<open>FXDataSimulator\<close> as its price provider. For a
  symbol, \<open>getPrice\<close> returns the object stored in \<open>this.prices\<close>, or nothing. These
  objects are built by \<open>initializePrices\<close>, \<open>updatePrice\<close> and \<open>simulateNewsEvent\<close>
  with the properties \<open>bid\<close>, \<open>ask\<close>, \<open>timestamp\<close>, \<open>volume\<close> and, after an update,
  \<open>change\<close> and \<open>changePercent\<close>: they are the \<^typ>\<open>quote\<close>s above. None of them has a
  property \<open>mid\<close> (only the \<open>priceUpdate\<close> event carries one), so where the engine reads
  \<open>currentPrice.mid\<close> it gets \<open>undefined\<close>, which is \<open>NaN\<close> in arithmetic.

  A number of the engine that may be \<open>NaN\<close> is a \<open>jsnum\<close>: arithmetic with \<open>NaN\<close> gives
  \<open>NaN\<close>, and every comparison with \<open>NaN\<close> is false.

  The database is the \<open>positions\<close> table (one row per symbol) and the \<open>trades\<close> table
  (append-only). The columns \<open>quantity\<close> and \<open>value\<close> of \<open>trades\<close> are declared
  \<open>REAL NOT NULL\<close>; a \<open>NaN\<close> is bound as \<open>NULL\<close>, so the \<open>INSERT\<close> of a trade whose
  quantity or value is \<open>NaN\<close> fails and control passes to the \<open>catch\<close> branch. Every
  other statement is taken to succeed. Identifiers and wall-clock timestamps of a trade
  are left out, and so is the \<open>trading_stats\<close> row, which mirrors
  \<open>currentDailyVolume\<close>.
\<close>

datatype jsnum = Num real | NaN

fun js_plus :: "jsnum \<Rightarrow> jsnum \<Rightarrow> jsnum" where
  "js_plus (Num a) (Num b) = Num (a + b)"
| "js_plus x y = NaN"

fun js_times :: "jsnum \<Rightarrow> jsnum \<Rightarrow> jsnum" where
  "js_times (Num a) (Num b) = Num (a * b)"
| "js_times x y = NaN"

fun js_div :: "jsnum \<Rightarrow> jsnum \<Rightarrow> jsnum" where
  "js_div (Num a) (Num b) = Num (a / b)"
| "js_div x y = NaN"

text \<open>\<open>Math.max\<close> of two numbers.\<close>

fun js_max :: "jsnum \<Rightarrow> jsnum \<Rightarrow> jsnum" where
  "js_max (Num a) (Num b) = Num (max a b)"
| "js_max x y = NaN"

text \<open>\<open>x > y\<close>.\<close>

fun js_gt :: "jsnum \<Rightarrow> jsnum \<Rightarrow> bool" where
  "js_gt (Num a) (Num b) = (a > b)"
| "js_gt x y = False"

text \<open>\<open>currentPrice.mid\<close>, as a number: the property is absent from every object of
  the provider.\<close>

definition mid :: "quote \<Rightarrow> jsnum" where
  "mid currentPrice = NaN"

record position =
  quantity :: real
  avg_price :: real
  total_value :: real
  pnl :: real

text \<open>A row of the \<open>trades\<close> table.\<close>

record trade =
  t_symbol :: string
  t_side :: sigkind
  t_quantity :: real
  t_price :: real
  t_value :: real
  t_algorithm :: string
  t_status :: string
  signal_data :: combinedSignal

text \<open>The environment variables the constructor reads. The two numeric ones are given by
  what \<open>parseFloat\<close> makes of them: \<open>None\<close> when unset or not a number.\<close>

record env =
  MAX_TRADING_VOLUME :: "real option"
  DEFAULT_POSITION_SIZE :: "real option"
  RISK_MANAGEMENT :: "string option"

record engine =
  isActive :: bool
  maxDailyVolume :: real
  defaultPositionSize :: real
  currentDailyVolume :: real
  riskManagement :: bool
  prices :: "string \<rightharpoonup> quote"
  symbols :: "string list"
  priceHistory :: histories
  positions :: "string \<rightharpoonup> position"
  trades :: "trade list"

text \<open>What a call of \<open>executeBuy\<close> or \<open>executeSell\<close> comes to: it throws (no price for
  the symbol); it returns \<open>null\<close> from the volume test (\<open>Rejected\<close>); it returns \<open>null\<close>
  from the \<open>catch\<close> branch (\<open>Failed\<close>); or it returns the trade.\<close>

datatype exec_result = TypeError | Rejected | Failed | Executed trade

datatype outcome =
    NoPrice
  | NotConfident
  | RiskRejected
  | Threw
  | BuyCalled exec_result
  | SellCalled exec_result
  | NoTrade

text \<open>\<open>x || d\<close> for a parsed number \<open>x\<close>.\<close>

definition or_default :: "real option \<Rightarrow> real \<Rightarrow> real" where
  "or_default x d = (if falsy x then d else the x)"

text \<open>The constructor, with \<open>loadCurrentVolume\<close>: \<open>stored\<close> is the \<open>total_volume\<close> of
  today's \<open>trading_stats\<close> row, if there is one.\<close>

definition newTradingEngine ::
  "env \<Rightarrow> (string \<rightharpoonup> quote) \<Rightarrow> string list \<Rightarrow> histories \<Rightarrow> (string \<rightharpoonup> position)
     \<Rightarrow> real option \<Rightarrow> engine" where
  "newTradingEngine ev pr syms ph db stored =
     \<lparr>isActive = False,
      maxDailyVolume = or_default (MAX_TRADING_VOLUME ev) 10000000,
      defaultPositionSize = or_default (DEFAULT_POSITION_SIZE ev) 10000,
      currentDailyVolume = (case stored of None \<Rightarrow> 0 | Some v \<Rightarrow> v),
      riskManagement = (RISK_MANAGEMENT ev = Some ''true''),
      prices = pr, symbols = syms, priceHistory = ph, positions = db, trades = []\<rparr>"

definition start :: "engine \<Rightarrow> engine" where
  "start e = (if isActive e then e else e\<lparr>isActive := True\<rparr>)"

definition stop :: "engine \<Rightarrow> engine" where
  "stop e = (if \<not> isActive e then e else e\<lparr>isActive := False\<rparr>)"

text \<open>\<open>None\<close>: the symbol has no price and reading \<open>currentPrice.mid\<close> throws.\<close>

definition calculatePositionSize :: "engine \<Rightarrow> string \<Rightarrow> real \<Rightarrow> jsnum option" where
  "calculatePositionSize e symbol conf =
     (let size = Num (defaultPositionSize e * conf)
      in case prices e symbol of
           None \<Rightarrow> None
         | Some currentPrice \<Rightarrow>
             let minTradeValue = Num 1000;
                 minSize = js_div minTradeValue (mid currentPrice)
             in Some (js_max size minSize))"

definition passesRiskChecks ::
  "engine \<Rightarrow> string \<Rightarrow> combinedSignal \<Rightarrow> position option \<Rightarrow> bool option" where
  "passesRiskChecks e symbol sig existingPosition =
     (if currentDailyVolume e \<ge> maxDailyVolume e then Some False
      else case prices e symbol of
        None \<Rightarrow> None
      | Some currentPrice \<Rightarrow>
          (case calculatePositionSize e symbol (confidence sig) of
             None \<Rightarrow> None
           | Some positionSize \<Rightarrow>
               let tradeValue = js_times positionSize (mid currentPrice)
               in if js_gt tradeValue (Num (maxDailyVolume e * 0.1)) then Some False
                  else case existingPosition of
                    None \<Rightarrow> Some True
                  | Some p \<Rightarrow>
                      let currentExposure = Num \<bar>quantity p * avg_price p\<bar>;
                          newExposure = js_plus currentExposure tradeValue
                      in if js_gt newExposure (Num (maxDailyVolume e * 0.2)) then Some False
                         else Some True))"

definition updatePosition ::
  "(string \<rightharpoonup> position) \<Rightarrow> string \<Rightarrow> real \<Rightarrow> real \<Rightarrow> bool \<Rightarrow> (string \<rightharpoonup> position)" where
  "updatePosition db symbol qty prc isClosing =
     (case db symbol of
        None \<Rightarrow>
          db(symbol \<mapsto> \<lparr>quantity = qty, avg_price = prc, total_value = qty * prc, pnl = 0\<rparr>)
      | Some currentPosition \<Rightarrow>
          let (newQuantity, newAvgPrice, newTotalValue) =
                (if isClosing
                 then let nq = quantity currentPosition + qty;
                          na = (if nq = 0 then 0 else avg_price currentPosition)
                      in (nq, na, nq * na)
                 else let oldValue = quantity currentPosition * avg_price currentPosition;
                          newValue = qty * prc;
                          ntv = oldValue + newValue;
                          nq = quantity currentPosition + qty;
                          na = (if nq \<noteq> 0 then ntv / nq else 0)
                      in (nq, na, ntv))
          in db(symbol \<mapsto> currentPosition\<lparr>quantity := newQuantity,
                  avg_price := newAvgPrice, total_value := newTotalValue\<rparr>))"

text \<open>\<open>PositionModel.updatePosition\<close>: as above, except that closing subtracts
  \<open>Math.abs(quantity)\<close>.\<close>

definition PositionModel_updatePosition ::
  "(string \<rightharpoonup> position) \<Rightarrow> string \<Rightarrow> real \<Rightarrow> real \<Rightarrow> bool \<Rightarrow> (string \<rightharpoonup> position)" where
  "PositionModel_updatePosition db symbol qty prc isClosing =
     (case db symbol of
        None \<Rightarrow>
          db(symbol \<mapsto> \<lparr>quantity = qty, avg_price = prc, total_value = qty * prc, pnl = 0\<rparr>)
      | Some currentPosition \<Rightarrow>
          let (newQuantity, newAvgPrice, newTotalValue) =
                (if isClosing
                 then let nq = quantity currentPosition - \<bar>qty\<bar>;
                          na = (if nq = 0 then 0 else avg_price currentPosition)
                      in (nq, na, nq * na)
                 else let oldValue = quantity currentPosition * avg_price currentPosition;
                          newValue = qty * prc;
                          ntv = oldValue + newValue;
                          nq = quantity currentPosition + qty;
                          na = (if nq \<noteq> 0 then ntv / nq else 0)
                      in (nq, na, ntv))
          in db(symbol \<mapsto> currentPosition\<lparr>quantity := newQuantity,
                  avg_price := newAvgPrice, total_value := newTotalValue\<rparr>))"

definition updatePositionPnL :: "(string \<rightharpoonup> position) \<Rightarrow> string \<Rightarrow> real \<Rightarrow> (string \<rightharpoonup> position)" where
  "updatePositionPnL db symbol currentPrice =
     (case db symbol of
        None \<Rightarrow> db
      | Some p \<Rightarrow>
          if quantity p \<noteq> 0
          then db(symbol \<mapsto> p\<lparr>pnl := (currentPrice - avg_price p) * quantity p\<rparr>)
          else db)"

text \<open>
  \<open>executeBuy\<close>. After the volume test comes the \<open>try\<close> block: the \<open>INSERT\<close> into
  \<open>trades\<close>, which fails on a \<open>NaN\<close> quantity or value, in which case nothing has been
  changed and the \<open>catch\<close> branch returns \<open>null\<close>; then the position, the daily volume
  and the returned trade.
\<close>

definition executeBuy :: "engine \<Rightarrow> string \<Rightarrow> jsnum \<Rightarrow> combinedSignal \<Rightarrow> exec_result \<times> engine" where
  "executeBuy e symbol qty sig =
     (case prices e symbol of
        None \<Rightarrow> (TypeError, e)
      | Some priceData \<Rightarrow>
          let prc = ask priceData;
              val = js_times qty (Num prc)
          in if js_gt (js_plus (Num (currentDailyVolume e)) val) (Num (maxDailyVolume e))
             then (Rejected, e)
             else
               (case (qty, val) of
                  (Num q, Num v) \<Rightarrow>
                    let tr = \<lparr>t_symbol = symbol, t_side = buy, t_quantity = q, t_price = prc,
                              t_value = v, t_algorithm = ''combined'',
                              t_status = ''executed'', signal_data = sig\<rparr>
                    in (Executed tr,
                        e\<lparr>trades := trades e @ [tr],
                          positions := updatePosition (positions e) symbol q prc False,
                          currentDailyVolume := currentDailyVolume e + v\<rparr>)
                | _ \<Rightarrow> (Failed, e)))"

text \<open>\<open>executeSell\<close>: the same without the volume test, at the bid, with the negated
  quantity and the closing flag for the position.\<close>

definition executeSell :: "engine \<Rightarrow> string \<Rightarrow> jsnum \<Rightarrow> combinedSignal \<Rightarrow> exec_result \<times> engine" where
  "executeSell e symbol qty sig =
     (case prices e symbol of
        None \<Rightarrow> (TypeError, e)
      | Some priceData \<Rightarrow>
          let prc = bid priceData;
              val = js_times qty (Num prc)
          in case (qty, val) of
               (Num q, Num v) \<Rightarrow>
                 let tr = \<lparr>t_symbol = symbol, t_side = sell, t_quantity = q, t_price = prc,
                           t_value = v, t_algorithm = ''combined'',
                           t_status = ''executed'', signal_data = sig\<rparr>
                 in (Executed tr,
                     e\<lparr>trades := trades e @ [tr],
                       positions := updatePosition (positions e) symbol (- q) prc True,
                       currentDailyVolume := currentDailyVolume e + v\<rparr>)
             | _ \<Rightarrow> (Failed, e))"

definition evaluateSymbol :: "engine \<Rightarrow> string \<Rightarrow> outcome \<times> engine" where
  "evaluateSymbol e symbol =
     (case prices e symbol of
        None \<Rightarrow> (NoPrice, e)
      | Some currentPrice \<Rightarrow>
          let sig = getCombinedSignal (priceHistory e) symbol defaultOptions
          in if confidence sig < 0.6 then (NotConfident, e)
             else
               let existingPosition = positions e symbol;
                   risk = (if riskManagement e
                           then passesRiskChecks e symbol sig existingPosition
                           else Some True)
               in case risk of
                    None \<Rightarrow> (Threw, e)
                  | Some False \<Rightarrow> (RiskRejected, e)
                  | Some True \<Rightarrow>
                      (case calculatePositionSize e symbol (confidence sig) of
                         None \<Rightarrow> (Threw, e)
                       | Some positionSize \<Rightarrow>
                           if signal sig = buy \<and>
                              (case existingPosition of None \<Rightarrow> True
                               | Some p \<Rightarrow> quantity p \<le> 0)
                           then let (r, e') = executeBuy e symbol positionSize sig
                                in (BuyCalled r, e')
                           else if signal sig = sell \<and>
                              (case existingPosition of None \<Rightarrow> True
                               | Some p \<Rightarrow> quantity p \<ge> 0)
                           then let (r, e') = executeSell e symbol positionSize sig
                                in (SellCalled r, e')
                           else (NoTrade, e)))"

text \<open>The loop of \<open>evaluateTradingOpportunities\<close> over the symbols, in order; what each
  call of \<open>evaluateSymbol\<close> came to is collected.\<close>

fun evaluateSymbols :: "engine \<Rightarrow> string list \<Rightarrow> outcome list \<times> engine" where
  "evaluateSymbols e [] = ([], e)"
| "evaluateSymbols e (symbol # rest) =
     (let (r, e') = evaluateSymbol e symbol;
          (rs, e'') = evaluateSymbols e' rest
      in (r # rs, e''))"

definition evaluateTradingOpportunities :: "engine \<Rightarrow> outcome list \<times> engine" where
  "evaluateTradingOpportunities e =
     (if \<not> isActive e \<or> currentDailyVolume e \<ge> maxDailyVolume e
      then (if currentDailyVolume e \<ge> maxDailyVolume e then ([], stop e) else ([], e))
      else evaluateSymbols e (symbols e))"

section \<open>FXDataSimulator: historical bars\<close>

text \<open>
  \<open>Math.random()\<close> is an unseeded generator. Its successive results are the values
  \<open>rnd 0\<close>, \<open>rnd 1\<close>, \<dots> of a sequence \<open>rnd\<close>, and the index of the next draw is
  threaded through the loop. Dates are milliseconds since the epoch.
\<close>

record bar =
  bar_timestamp :: int
  bar_symbol :: string
  bar_open :: real
  bar_high :: real
  bar_low :: real
  bar_close :: real
  bar_volume :: real

definition volatility :: real where
  "volatility = 0.001"

definition getIntervalMilliseconds :: "string \<Rightarrow> int" where
  "getIntervalMilliseconds interval =
     (if interval = ''1min'' then 60 * 1000
      else if interval = ''5min'' then 5 * 60 * 1000
      else if interval = ''15min'' then 15 * 60 * 1000
      else if interval = ''30min'' then 30 * 60 * 1000
      else if interval = ''1hour'' then 60 * 60 * 1000
      else if interval = ''4hour'' then 4 * 60 * 60 * 1000
      else if interval = ''1day'' then 24 * 60 * 60 * 1000
      else 60 * 60 * 1000)"

function generate_loop ::
  "(nat \<Rightarrow> real) \<Rightarrow> string \<Rightarrow> string \<Rightarrow> int \<Rightarrow> int \<Rightarrow> real \<Rightarrow> nat \<Rightarrow> bar list \<Rightarrow> bar list" where
  "generate_loop rnd symbol interval endDate current prc k data =
     (if current \<le> endDate
      then
        let opn = prc;
            change = (rnd k - 0.5) * 2 * volatility * prc;
            cls = opn + change;
            hi = max opn cls + rnd (k + 1) * \<bar>change\<bar> * 0.5;
            lo = min opn cls - rnd (k + 2) * \<bar>change\<bar> * 0.5;
            vol = rnd (k + 3) * 1000000 + 100000
        in generate_loop rnd symbol interval endDate
             (current + getIntervalMilliseconds interval) cls (k + 4)
             (data @ [\<lparr>bar_timestamp = current, bar_symbol = symbol, bar_open = opn,
                       bar_high = hi, bar_low = lo, bar_close = cls, bar_volume = vol\<rparr>])
      else data)"
  by pat_completeness auto
termination
proof (relation "measure (\<lambda>(rnd, symbol, interval, endDate, current, prc, k, data).
                    nat (endDate - current + 1))", goal_cases)
  case 1
  show ?case by simp
next
  case (2 rnd symbol interval endDate current prc k data)
  have "0 < getIntervalMilliseconds interval"
    by (simp add: getIntervalMilliseconds_def)
  with 2 show ?case by simp
qed

declare generate_loop.simps [simp del]

definition generateHistoricalData ::
  "(string \<rightharpoonup> 'a quote_scheme) \<Rightarrow> (nat \<Rightarrow> real) \<Rightarrow> string \<Rightarrow> int \<Rightarrow> int \<Rightarrow> string \<Rightarrow> bar list" where
  "generateHistoricalData simPrices rnd symbol startDate endDate interval =
     (let prc = (case simPrices symbol of
                   Some p \<Rightarrow> (bid p + ask p) / 2
                 | None \<Rightarrow> 1.0)
      in generate_loop rnd symbol interval endDate startDate prc 0 [])"

section \<open>Backtest\<close>

text \<open>The \<open>parameters\<close> object of a backtest: each property may be absent.\<close>

record parameters =
  p_smaShort :: "nat option"
  p_smaLong :: "nat option"
  p_rsiPeriod :: "nat option"
  p_rsiOverbought :: "real option"
  p_rsiOversold :: "real option"
  p_bbPeriod :: "nat option"
  p_bbStdDev :: "real option"

definition resolveOptions :: "parameters \<Rightarrow> options" where
  "resolveOptions p =
     \<lparr>smaShort = (case p_smaShort p of None \<Rightarrow> 10 | Some v \<Rightarrow> v),
      smaLong = (case p_smaLong p of None \<Rightarrow> 50 | Some v \<Rightarrow> v),
      rsiPeriod = (case p_rsiPeriod p of None \<Rightarrow> 14 | Some v \<Rightarrow> v),
      rsiOverbought = (case p_rsiOverbought p of None \<Rightarrow> 70 | Some v \<Rightarrow> v),
      rsiOversold = (case p_rsiOversold p of None \<Rightarrow> 30 | Some v \<Rightarrow> v),
      bbPeriod = (case p_bbPeriod p of None \<Rightarrow> 20 | Some v \<Rightarrow> v),
      bbStdDev = (case p_bbStdDev p of None \<Rightarrow> 2 | Some v \<Rightarrow> v)\<rparr>"

record backtestTrade =
  bt_timestamp :: int
  bt_side :: sigkind
  bt_quantity :: real
  bt_price :: real
  bt_value :: real
  bt_pnl :: "real option"
  bt_signal :: combinedSignal

record backtestState =
  bt_history :: histories
  bt_trades :: "backtestTrade list"
  balance :: real
  bt_position :: real
  positionPrice :: real

text \<open>One pass of the loop of \<open>runBacktest\<close> over a bar.\<close>

definition backtest_step :: "string \<Rightarrow> parameters \<Rightarrow> backtestState \<Rightarrow> bar \<Rightarrow> backtestState" where
  "backtest_step symbol params st d =
     (let ph = addPriceData (bt_history st) symbol
                 \<lparr>bid = bar_close d, ask = bar_close d, tick_volume = bar_volume d\<rparr>
                 (bar_timestamp d);
          st1 = st\<lparr>bt_history := ph\<rparr>;
          sig = getCombinedSignal ph symbol (resolveOptions params)
      in if confidence sig > 0.6
         then
           if signal sig = buy \<and> bt_position st1 \<le> 0
           then
             let qty = real_of_int \<lfloor>balance st1 * 0.1 / bar_close d\<rfloor>
             in if qty > 0
                then st1\<lparr>bt_position := qty,
                         positionPrice := bar_close d,
                         balance := balance st1 - qty * bar_close d,
                         bt_trades := bt_trades st1 @
                           [\<lparr>bt_timestamp = bar_timestamp d, bt_side = buy, bt_quantity = qty,
                             bt_price = bar_close d, bt_value = qty * bar_close d,
                             bt_pnl = None, bt_signal = sig\<rparr>]\<rparr>
                else st1
           else if signal sig = sell \<and> bt_position st1 > 0
           then
             let sellValue = bt_position st1 * bar_close d;
                 pl = sellValue - (bt_position st1 * positionPrice st1)
             in st1\<lparr>balance := balance st1 + sellValue,
                     bt_trades := bt_trades st1 @
                       [\<lparr>bt_timestamp = bar_timestamp d, bt_side = sell,
                         bt_quantity = bt_position st1, bt_price = bar_close d,
                         bt_value = sellValue, bt_pnl = Some pl, bt_signal = sig\<rparr>],
                     bt_position := 0,
                     positionPrice := 0\<rparr>
           else st1
         else st1)"

record backtestStats =
  totalTrades :: nat
  profitableTrades :: nat
  winRate :: real
  totalPnL :: real
  startingBalance :: real
  finalBalance :: real
  returnPercent :: real

record backtestResult =
  r_symbol :: string
  r_startDate :: int
  r_endDate :: int
  r_algorithm :: string
  r_parameters :: parameters
  r_trades :: "backtestTrade list"
  r_stats :: backtestStats

text \<open>\<open>runBacktest\<close> once the bars are there. With no bar, reading \<open>close\<close> of the last
  one throws: the result is \<open>None\<close>.\<close>

definition backtest_on ::
  "bar list \<Rightarrow> string \<Rightarrow> int \<Rightarrow> int \<Rightarrow> string \<Rightarrow> parameters \<Rightarrow> backtestResult option" where
  "backtest_on historicalData symbol startDate endDate algorithm params =
     (let st = foldl (backtest_step symbol params)
                 \<lparr>bt_history = Map.empty, bt_trades = [], balance = 100000,
                  bt_position = 0, positionPrice = 0\<rparr> historicalData;
          trs = bt_trades st;
          total = length trs;
          profitable = length (filter (\<lambda>t. case bt_pnl t of None \<Rightarrow> False
                                            | Some v \<Rightarrow> v \<noteq> 0 \<and> v > 0) trs);
          totPnL = foldl (\<lambda>sum t. sum + (case bt_pnl t of None \<Rightarrow> 0 | Some v \<Rightarrow> v)) 0 trs
      in if historicalData = [] then None
         else
           let final = balance st + (bt_position st * bar_close (last historicalData));
               ret = ((final - 100000) / 100000) * 100
           in Some \<lparr>r_symbol = symbol, r_startDate = startDate, r_endDate = endDate,
                    r_algorithm = algorithm, r_parameters = params, r_trades = trs,
                    r_stats = \<lparr>totalTrades = total, profitableTrades = profitable,
                      winRate = (if total > 0 then (real profitable / real total) * 100 else 0),
                      totalPnL = totPnL, startingBalance = 100000,
                      finalBalance = final, returnPercent = ret\<rparr>\<rparr>)"

definition runBacktest ::
  "(string \<rightharpoonup> 'a quote_scheme) \<Rightarrow> (nat \<Rightarrow> real) \<Rightarrow> string \<Rightarrow> int \<Rightarrow> int \<Rightarrow> string \<Rightarrow> parameters
     \<Rightarrow> backtestResult option" where
  "runBacktest simPrices rnd symbol startDate endDate algorithm params =
     backtest_on (generateHistoricalData simPrices rnd symbol startDate endDate ''1hour'')
       symbol startDate endDate algorithm params"

section \<open>Reference definitions\<close>

text \<open>
  The definitions of this section are not translated from the code: they restate, in
  terms of plain lists of prices, what the specification says (or, where the name says
  so, an amended reading of it), to be compared with the code above.
\<close>

text \<open>RSI as specified: pairwise differences over the last \<open>n + 1\<close> points, gains and
  losses averaged over \<open>n\<close>, \<open>100\<close> when the average loss is \<open>0\<close>.\<close>

definition rsi_reference :: "real list \<Rightarrow> nat \<Rightarrow> real option" where
  "rsi_reference p n =
     (if length p < n + 1 then None
      else
        let w = drop (length p - (n + 1)) p;
            d = map (\<lambda>i. w ! i - w ! (i - 1)) [1..<length w];
            avg_gain = sum_list (map (\<lambda>x. max x 0) d) / real n;
            avg_loss = sum_list (map (\<lambda>x. max (- x) 0) d) / real n
        in if avg_loss = 0 then Some 100
           else Some (100 - 100 / (1 + avg_gain / avg_loss)))"

text \<open>SMA as specified: the mean of the last \<open>n\<close> prices, undefined on fewer.\<close>

definition sma_of :: "real list \<Rightarrow> nat \<Rightarrow> real option" where
  "sma_of p n =
     (if length p < n then None else Some (sum_list (drop (length p - n) p) / real n))"

text \<open>
  The crossover rule, amended. \<open>S\<close>, \<open>L\<close> are the short and long averages at the latest
  point and \<open>S'\<close>, \<open>L'\<close> those one point back. Against the specification: too short a
  history (or an average that is \<open>0\<close>) gives the reason \<open>insufficient_data\<close>, and only a
  history of exactly \<open>long\<close> points gives \<open>insufficient_history\<close>; a sell needs
  \<open>S' > L'\<close> and \<open>S \<le> L\<close>, and its confidence divides by \<open>S\<close>.
\<close>

definition sma_crossover_amended :: "real list \<Rightarrow> nat \<Rightarrow> nat \<Rightarrow> signalT" where
  "sma_crossover_amended p short long =
     (case (sma_of p short, sma_of p long) of
        (Some S, Some L) \<Rightarrow>
          if S = 0 \<or> L = 0
          then \<lparr>signal = hold, confidence = 0, reason = ''insufficient_data''\<rparr>
          else if length p < long + 1
          then \<lparr>signal = hold, confidence = 0, reason = ''insufficient_history''\<rparr>
          else
            (case (sma_of (butlast p) short, sma_of (butlast p) long) of
               (Some S', Some L') \<Rightarrow>
                 if S' \<le> L' \<and> S > L
                 then \<lparr>signal = buy, confidence = min 1 ((S - L) / L * 100),
                       reason = ''golden_cross''\<rparr>
                 else if S' > L' \<and> S \<le> L
                 then \<lparr>signal = sell, confidence = min 1 ((L - S) / S * 100),
                       reason = ''death_cross''\<rparr>
                 else \<lparr>signal = hold, confidence = 0, reason = ''no_crossover''\<rparr>
             | _ \<Rightarrow> \<lparr>signal = hold, confidence = 0, reason = ''no_crossover''\<rparr>)
      | _ \<Rightarrow> \<lparr>signal = hold, confidence = 0, reason = ''insufficient_data''\<rparr>)"

text \<open>The consensus as specified: keep the signals of positive confidence, count buys
  against sells, answer with the majority and the mean of its confidences, capped at 1;
  hold with confidence 0 otherwise.\<close>

definition consensus_reference :: "signalT \<Rightarrow> signalT \<Rightarrow> signalT \<Rightarrow> sigkind \<times> real" where
  "consensus_reference a b c =
     (let kept = filter (\<lambda>s. confidence s > 0) [a, b, c];
          buys = filter (\<lambda>s. signal s = buy) kept;
          sells = filter (\<lambda>s. signal s = sell) kept
      in if length buys > length sells
         then (buy, min 1 (sum_list (map confidence buys) / real (length buys)))
         else if length sells > length buys
         then (sell, min 1 (sum_list (map confidence sells) / real (length sells)))
         else (hold, 0))"


text \<open>The direction of a signal is compatible with the stored position: a buy with no
  row or a quantity \<open>\<le> 0\<close>, a sell with no row or a quantity \<open>\<ge> 0\<close>.\<close>

definition compatible :: "sigkind \<Rightarrow> position option \<Rightarrow> bool" where
  "compatible k pos =
     (case k of
        buy \<Rightarrow> (case pos of None \<Rightarrow> True | Some p \<Rightarrow> quantity p \<le> 0)
      | sell \<Rightarrow> (case pos of None \<Rightarrow> True | Some p \<Rightarrow> quantity p \<ge> 0)
      | hold \<Rightarrow> False)"

abbreviation consensus :: "engine \<Rightarrow> string \<Rightarrow> combinedSignal" where
  "consensus e symbol \<equiv> getCombinedSignal (priceHistory e) symbol defaultOptions"

text \<open>The number of bars between two dates: the number of passes of the generating
  loop.\<close>

definition bar_count :: "string \<Rightarrow> int \<Rightarrow> int \<Rightarrow> nat" where
  "bar_count interval current endDate =
     (if current \<le> endDate
      then nat ((endDate - current) div getIntervalMilliseconds interval) + 1
      else 0)"

section \<open>Example inputs\<close>

definition pt :: "real \<Rightarrow> pricePoint" where
  "pt p = \<lparr>timestamp = 0, price = p, high = p, low = p, volume = 0\<rparr>"

text \<open>Fifteen points, each a thousandth below (above) the one before.\<close>

definition falling :: "real \<Rightarrow> pricePoint list" where
  "falling p = map (\<lambda>k. pt (p - real k / 1000)) [0..<15]"

definition rising :: "real \<Rightarrow> pricePoint list" where
  "rising p = map (\<lambda>k. pt (p + real k / 1000)) [0..<15]"

text \<open>A price object as the provider stores it.\<close>

definition providerPrice :: "real \<Rightarrow> real \<Rightarrow> quote" where
  "providerPrice b a = \<lparr>bid = b, ask = a, tick_volume = 500000\<rparr>"

definition defaultEnv :: env where
  "defaultEnv =
     \<lparr>MAX_TRADING_VOLUME = None, DEFAULT_POSITION_SIZE = None, RISK_MANAGEMENT = None\<rparr>"

definition buySignal :: combinedSignal where
  "buySignal = \<lparr>signal = buy, confidence = 1, reason = ''combined_analysis'',
      sma = \<lparr>signal = hold, confidence = 0, reason = ''insufficient_data''\<rparr>,
      rsi = \<lparr>signal = buy, confidence = 1, reason = ''oversold''\<rparr>,
      bb = \<lparr>signal = hold, confidence = 0, reason = ''insufficient_data''\<rparr>,
      buyCount = Some 1, sellCount = Some 0, totalSignals = Some 1\<rparr>"

definition sellSignal :: combinedSignal where
  "sellSignal = \<lparr>signal = sell, confidence = 1, reason = ''combined_analysis'',
      sma = \<lparr>signal = hold, confidence = 0, reason = ''insufficient_data''\<rparr>,
      rsi = \<lparr>signal = sell, confidence = 1, reason = ''overbought''\<rparr>,
      bb = \<lparr>signal = hold, confidence = 0, reason = ''insufficient_data''\<rparr>,
      buyCount = Some 0, sellCount = Some 1, totalSignals = Some 1\<rparr>"

definition twoPrices :: "string \<rightharpoonup> quote" where
  "twoPrices =
     [''EURUSD'' \<mapsto> providerPrice 1.0849 1.0851, ''AUDUSD'' \<mapsto> providerPrice 0.6849 0.6851]"

text \<open>A running engine with the default configuration, 9,990,000 already traded today,
  and a falling market in both symbols.\<close>

definition engineNearCap :: engine where
  "engineNearCap = start (newTradingEngine defaultEnv twoPrices [''EURUSD'', ''AUDUSD'']
      [''EURUSD'' \<mapsto> falling 1.099, ''AUDUSD'' \<mapsto> falling 0.699] Map.empty (Some 9990000))"

definition audTrade :: trade where
  "audTrade = \<lparr>t_symbol = ''AUDUSD'', t_side = buy, t_quantity = 10000, t_price = 0.6851,
     t_value = 6851, t_algorithm = ''combined'', t_status = ''executed'',
     signal_data = buySignal\<rparr>"

definition afterAudBuy :: engine where
  "afterAudBuy = engineNearCap\<lparr>trades := [audTrade],
     positions := [''AUDUSD'' \<mapsto> \<lparr>quantity = 10000, avg_price = 0.6851,
                     total_value = 6851, pnl = 0\<rparr>],
     currentDailyVolume := 9996851\<rparr>"

text \<open>The same with 9,995,000 traded and a rising market in \<open>EURUSD\<close>.\<close>

definition engineSellNearCap :: engine where
  "engineSellNearCap = start (newTradingEngine defaultEnv twoPrices [''EURUSD'', ''AUDUSD'']
      [''EURUSD'' \<mapsto> rising 1.071] Map.empty (Some 9995000))"

definition eurSellTrade :: trade where
  "eurSellTrade = \<lparr>t_symbol = ''EURUSD'', t_side = sell, t_quantity = 10000, t_price = 1.0849,
     t_value = 10849, t_algorithm = ''combined'', t_status = ''executed'',
     signal_data = sellSignal\<rparr>"

definition afterEurSell :: engine where
  "afterEurSell = engineSellNearCap\<lparr>trades := [eurSellTrade],
     positions := [''EURUSD'' \<mapsto> \<lparr>quantity = - 10000, avg_price = 1.0849,
                     total_value = - 10849, pnl = 0\<rparr>],
     currentDailyVolume := 10005849\<rparr>"

text \<open>A running engine on \<open>USDJPY\<close> with nothing traded yet and a falling market, without
  and with \<open>RISK_MANAGEMENT=true\<close>.\<close>

definition yenPrices :: "string \<rightharpoonup> quote" where
  "yenPrices = [''USDJPY'' \<mapsto> providerPrice 148.49 148.51]"

definition engineYen :: engine where
  "engineYen = start (newTradingEngine defaultEnv yenPrices [''USDJPY'']
      [''USDJPY'' \<mapsto> falling 148.514] Map.empty None)"

definition engineYenRisk :: engine where
  "engineYenRisk = start (newTradingEngine (defaultEnv\<lparr>RISK_MANAGEMENT := Some ''true''\<rparr>)
      yenPrices [''USDJPY''] [''USDJPY'' \<mapsto> falling 148.514] Map.empty None)"

definition yenTrade :: trade where
  "yenTrade = \<lparr>t_symbol = ''USDJPY'', t_side = buy, t_quantity = 10000, t_price = 148.51,
     t_value = 1485100, t_algorithm = ''combined'', t_status = ''executed'',
     signal_data = buySignal\<rparr>"

definition afterYenBuy :: engine where
  "afterYenBuy = engineYen\<lparr>trades := [yenTrade],
     positions := [''USDJPY'' \<mapsto> \<lparr>quantity = 10000, avg_price = 148.51,
                     total_value = 1485100, pnl = 0\<rparr>],
     currentDailyVolume := 1485100\<rparr>"

text \<open>From an engine with no position: \<open>executeBuy\<close> of 10,000 \<open>EURUSD\<close>, then
  \<open>executeSell\<close> of 10,000 twice.\<close>

definition engineFlat :: engine where
  "engineFlat = start (newTradingEngine defaultEnv twoPrices [''EURUSD'', ''AUDUSD'']
      [''EURUSD'' \<mapsto> falling 1.099] Map.empty None)"

definition afterBuy :: engine where
  "afterBuy = snd (executeBuy engineFlat ''EURUSD'' (Num 10000) buySignal)"

definition afterSell :: engine where
  "afterSell = snd (executeSell afterBuy ''EURUSD'' (Num 10000) sellSignal)"

definition afterSecondSell :: engine where
  "afterSecondSell = snd (executeSell afterSell ''EURUSD'' (Num 10000) sellSignal)"

text \<open>A flat row, as a closing SELL leaves it, and a short of 10,000 at 1.0800.\<close>

definition flatRow :: "string \<rightharpoonup> position" where
  "flatRow = [''EURUSD'' \<mapsto> \<lparr>quantity = 0, avg_price = 0, total_value = 0, pnl = 0\<rparr>]"

definition shortPosition :: "string \<rightharpoonup> position" where
  "shortPosition =
     [''EURUSD'' \<mapsto> \<lparr>quantity = - 10000, avg_price = 1.08, total_value = - 10800, pnl = 0\<rparr>]"

text \<open>The position of scenario S4: long 10,000 at 1.0800.\<close>

definition longPosition :: "string \<rightharpoonup> position" where
  "longPosition =
     [''EURUSD'' \<mapsto> \<lparr>quantity = 10000, avg_price = 1.08, total_value = 10800, pnl = 0\<rparr>]"

text \<open>Price histories for the crossover strategy.\<close>

definition onePoint :: histories where
  "onePoint = [''EURUSD'' \<mapsto> [pt 1.08]]"

definition touchBefore :: histories where
  "touchBefore = [''EURUSD'' \<mapsto> [pt 2, pt 2]]"

definition touchThenDrop :: histories where
  "touchThenDrop = [''EURUSD'' \<mapsto> [pt 2, pt 2, pt 1]]"

definition flatThenRise :: histories where
  "flatThenRise = [''EURUSD'' \<mapsto> [pt 1, pt 1, pt 2]]"

definition upDown :: histories where
  "upDown = [''EURUSD'' \<mapsto> [pt 1, pt 3, pt 2]]"

text \<open>A simulator with no price for any symbol, sequences of draws of
  \<open>Math.random()\<close>, and backtest parameters with an RSI period of 1.\<close>

definition noPrices :: "string \<rightharpoonup> quote" where
  "noPrices = Map.empty"

definition draws_low :: "nat \<Rightarrow> real" where
  "draws_low j = 0"

definition draws_mid :: "nat \<Rightarrow> real" where
  "draws_mid j = 1 / 2"

definition draws_mid_then_low :: "nat \<Rightarrow> real" where
  "draws_mid_then_low j = (if j < 8 then 1 / 2 else 0)"

definition rsi1 :: parameters where
  "rsi1 = \<lparr>p_smaShort = None, p_smaLong = None, p_rsiPeriod = Some 1, p_rsiOverbought = None,
     p_rsiOversold = None, p_bbPeriod = None, p_bbStdDev = None\<rparr>"

section \<open>Indicators and strategies\<close>

lemma foldl_plus_sum_list: "foldl (\<lambda>s (x::real). s + x) a xs = a + sum_list xs"
  by (induction xs arbitrary: a) simp_all

lemma foldl_price_sum: "foldl (\<lambda>acc item. acc + price item) a xs = a + sum_list (map price xs)"
  by (induction xs arbitrary: a) simp_all

lemma foldl_confidence_sum:
  "foldl (\<lambda>sum s. sum + confidence s) a xs = a + sum_list (map confidence xs)"
  by (induction xs arbitrary: a) simp_all

lemma sum_prices_sum_list: "sum_prices xs = sum_list (map price xs)"
  by (simp add: sum_prices_def foldl_price_sum)

lemma price_pt [simp]: "price (pt p) = p"
  by (simp add: pt_def)

subsection \<open>RSI\<close>

text \<open>The loop appends, for each index from \<open>i\<close> on, the positive part of the change to
  \<open>gains\<close> and the negative part to \<open>losses\<close>.\<close>

lemma rsi_loop_eq:
  "rsi_loop h i g l =
     (g @ map (\<lambda>j. max (price (h ! j) - price (h ! (j - 1))) 0) [i..<length h],
      l @ map (\<lambda>j. max (- (price (h ! j) - price (h ! (j - 1)))) 0) [i..<length h])"
proof (induction h i g l rule: rsi_loop.induct)
  case (1 history i gains losses)
  show ?case
  proof (cases "i < length history")
    case False
    then show ?thesis by (simp add: rsi_loop.simps)
  next
    case True
    then have u: "[i..<length history] = i # [i + 1..<length history]"
      by (simp add: upt_conv_Cons)
    show ?thesis
    proof (cases "price (history ! i) - price (history ! (i - 1)) > 0")
      case pos: True
      from "1.IH"(1) [OF True refl pos] True pos show ?thesis
        by (subst rsi_loop.simps) (simp add: u Let_def)
    next
      case neg: False
      from "1.IH"(2) [OF True refl neg] True neg show ?thesis
        by (subst rsi_loop.simps) (simp add: u Let_def)
    qed
  qed
qed

lemma diffs_map_price:
  "map (\<lambda>i. map price h ! i - map price h ! (i - 1)) [1..<length h] =
   map (\<lambda>j. price (h ! j) - price (h ! (j - 1))) [1..<length h]"
  by (rule map_cong) auto

text \<open>
  Claim C10. For a period \<open>n > 0\<close> (the default is 14), \<open>calculateRSI\<close> is the reference
  RSI of the symbol's prices: over the last \<open>n + 1\<close> points the pairwise differences are
  taken, their positive and negative parts are averaged over \<open>n\<close>, the result is \<open>100\<close>
  when the average loss is \<open>0\<close> and \<open>100 - 100 / (1 + avg_gain / avg_loss)\<close> otherwise;
  with fewer than \<open>n + 1\<close> points there is no value.
\<close>

theorem calculateRSI_reference:
  assumes "0 < n"
  shows "calculateRSI ph symbol n = rsi_reference (map price (getPriceHistory ph symbol None)) n"
proof -
  define full where "full = getPriceHistory ph symbol None"
  define h where "h = drop (length full - (n + 1)) full"
  define G where
    "G = sum_list (map (\<lambda>j. max (price (h ! j) - price (h ! (j - 1))) 0) [1..<length h])"
  define L where
    "L = sum_list (map (\<lambda>j. max (- (price (h ! j) - price (h ! (j - 1)))) 0) [1..<length h])"
  have win: "getPriceHistory ph symbol (Some (n + 1)) = h"
    by (simp add: getPriceHistory_def slice_last_def h_def full_def Let_def)
  have len: "length h < n + 1 \<longleftrightarrow> length full < n + 1"
    by (auto simp: h_def)
  have w: "drop (length (map price full) - (n + 1)) (map price full) = map price h"
    by (simp add: h_def drop_map)
  have code: "calculateRSI ph symbol n =
      (if length full < n + 1 then None
       else if L / real n = 0 then Some 100
       else Some (100 - 100 / (1 + (G / real n) / (L / real n))))"
    unfolding calculateRSI_def win Let_def rsi_loop_eq len
    by (simp only: split_conv foldl_plus_sum_list append_Nil add_0 G_def L_def)
  have spec: "rsi_reference (map price full) n =
      (if length full < n + 1 then None
       else if L / real n = 0 then Some 100
       else Some (100 - 100 / (1 + (G / real n) / (L / real n))))"
    unfolding rsi_reference_def Let_def w
    by (simp only: length_map diffs_map_price map_map o_def G_def L_def)
  show ?thesis
    unfolding full_def [symmetric] by (simp only: code spec)
qed

text \<open>On the prices 1, 3, 2 with period 2: one gain of 2 and one loss of 1, so
  \<open>RS = 2\<close> and the RSI is \<open>100 - 100 / 3\<close>.\<close>

theorem calculateRSI_reference_witness:
  "calculateRSI upDown ''EURUSD'' 2 = Some (200 / 3)"
proof -
  have pos: "0 < (2::nat)" by simp
  have "rsi_reference (map price (getPriceHistory upDown ''EURUSD'' None)) 2 = Some (200 / 3)"
    by (simp add: rsi_reference_def getPriceHistory_def upDown_def Let_def upt_conv_Cons)
  with calculateRSI_reference [OF pos, of upDown "''EURUSD''"] show ?thesis by simp
qed

subsection \<open>SMA crossover\<close>

lemma calculateSMA_sma_of:
  assumes "0 < n"
  shows "calculateSMA ph symbol n = sma_of (map price (getPriceHistory ph symbol None)) n"
proof -
  define h where "h = getPriceHistory ph symbol None"
  have win: "getPriceHistory ph symbol (Some n) = drop (length h - n) h"
    using assms by (simp add: getPriceHistory_def slice_last_def h_def Let_def)
  have len: "length (drop (length h - n) h) < n \<longleftrightarrow> length h < n"
    by auto
  show ?thesis
    unfolding calculateSMA_def win Let_def len sma_of_def h_def [symmetric]
    by (simp add: sum_prices_sum_list drop_map)
qed

lemma prev_sma_of:
  assumes "0 < n" and "n \<le> length (butlast h)"
  shows "sma_of (map price (butlast h)) n =
         Some (sum_prices (slice_last n (slice_init h)) / real n)"
  using assms
  by (simp add: sma_of_def slice_last_def slice_init_def butlast_conv_take sum_prices_sum_list
      drop_map)

text \<open>
  Claim C7, amended. For periods \<open>0 < short \<le> long\<close>, with \<open>S\<close>, \<open>L\<close> the short and long
  averages at the latest point and \<open>S'\<close>, \<open>L'\<close> those one point back:
  the strategy returns BUY with confidence \<open>min(1, (S - L) / L \<times> 100)\<close> and reason
  \<open>golden_cross\<close> exactly when \<open>S' \<le> L'\<close> and \<open>S > L\<close>; it returns SELL with confidence
  \<open>min(1, (L - S) / S \<times> 100)\<close> and reason \<open>death_cross\<close> exactly when \<open>S' > L'\<close> and
  \<open>S \<le> L\<close>; otherwise HOLD with confidence 0. With fewer than \<open>long\<close> points, or when an
  average is 0, it returns HOLD with reason \<open>insufficient_data\<close>; with exactly \<open>long\<close>
  points, HOLD with reason \<open>insufficient_history\<close>.
\<close>

theorem sma_crossover_as_coded:
  assumes "0 < short" and "short \<le> long"
  shows "getSMACrossoverSignal ph symbol short long =
         sma_crossover_amended (map price (getPriceHistory ph symbol None)) short long"
proof -
  define h where "h = getPriceHistory ph symbol None"
  from assms have l0: "0 < long" by simp
  note S = calculateSMA_sma_of [OF assms(1), of ph symbol, folded h_def]
  note L = calculateSMA_sma_of [OF l0, of ph symbol, folded h_def]
  show ?thesis
  proof (cases "length h < long + 1")
    case True
    then show ?thesis
      unfolding getSMACrossoverSignal_def sma_crossover_amended_def S L h_def [symmetric]
      by (auto simp: falsy_def Let_def split: option.splits)
  next
    case False
    then have n1: "short \<le> length (butlast h)" and n2: "long \<le> length (butlast h)"
      using assms by simp_all
    have nS: "sma_of (map price h) short \<noteq> None" and nL: "sma_of (map price h) long \<noteq> None"
      using False assms by (simp_all add: sma_of_def)
    show ?thesis
      unfolding getSMACrossoverSignal_def sma_crossover_amended_def S L h_def [symmetric]
      using False nS nL
      by (auto simp: falsy_def Let_def map_butlast [symmetric]
            prev_sma_of [OF assms(1) n1] prev_sma_of [OF l0 n2]
            split: option.splits)
  qed
qed

text \<open>With periods 1 and 2 on the prices 1, 1, 2: one point back both averages are 1,
  now they are 2 and 1.5: a golden cross, its confidence capped at 1.\<close>

theorem sma_crossover_as_coded_witness:
  "getSMACrossoverSignal flatThenRise ''EURUSD'' 1 2 =
     \<lparr>signal = buy, confidence = 1, reason = ''golden_cross''\<rparr>"
proof -
  have a: "0 < (1::nat)" and b: "(1::nat) \<le> 2" by simp_all
  have "sma_crossover_amended (map price (getPriceHistory flatThenRise ''EURUSD'' None)) 1 2 =
     \<lparr>signal = buy, confidence = 1, reason = ''golden_cross''\<rparr>"
    by (simp add: sma_crossover_amended_def sma_of_def getPriceHistory_def flatThenRise_def)
  with sma_crossover_as_coded [OF a b, of flatThenRise "''EURUSD''"] show ?thesis by simp
qed

text \<open>
  Claim C7 as stated fails twice. A history of one point is shorter than \<open>long + 1 = 51\<close>,
  yet the reason returned is \<open>insufficient_data\<close>, not \<open>insufficient_history\<close>. And with
  periods 1 and 2 on the prices 2, 2, 1 the averages one point back are equal
  (\<open>S' \<ge> L'\<close>) and now \<open>S = 1 < L = 1.5\<close>, yet the signal is not SELL.
\<close>

theorem sma_crossover_counterexample:
  "length (getPriceHistory onePoint ''EURUSD'' None) < 50 + 1 \<and>
   reason (getSMACrossoverSignal onePoint ''EURUSD'' 10 50) \<noteq> ''insufficient_history'' \<and>
   calculateSMA touchBefore ''EURUSD'' 1 = Some 2 \<and>
   calculateSMA touchBefore ''EURUSD'' 2 = Some 2 \<and>
   calculateSMA touchThenDrop ''EURUSD'' 1 = Some 1 \<and>
   calculateSMA touchThenDrop ''EURUSD'' 2 = Some (3 / 2) \<and>
   getPriceHistory touchBefore ''EURUSD'' None =
     slice_init (getPriceHistory touchThenDrop ''EURUSD'' None) \<and>
   signal (getSMACrossoverSignal touchThenDrop ''EURUSD'' 1 2) \<noteq> sell"
  by (simp add: getSMACrossoverSignal_def calculateSMA_def getPriceHistory_def slice_last_def
      slice_init_def sum_prices_def falsy_def onePoint_def touchBefore_def touchThenDrop_def
      Let_def)

subsection \<open>Consensus\<close>

lemma combineSignals_reference:
  "(signal (combineSignals a b c), confidence (combineSignals a b c)) = consensus_reference a b c"
proof (cases "filter (\<lambda>s. confidence s > 0) [a, b, c] = []")
  case True
  then show ?thesis
    unfolding combineSignals_def consensus_reference_def Let_def by simp
next
  case False
  then show ?thesis
    unfolding combineSignals_def consensus_reference_def Let_def
    by (simp only: foldl_confidence_sum length_0_conv if_False split: prod.splits)
       (auto simp: min.commute)
qed

lemma combineSignals_components:
  "sma (combineSignals a b c) = a \<and> rsi (combineSignals a b c) = b \<and>
   bb (combineSignals a b c) = c"
  by (simp add: combineSignals_def Let_def split: prod.splits)

text \<open>
  Claim C8. The combined signal is the combiner applied to the three component signals
  and to nothing else. The combiner keeps the components with confidence \<open>> 0\<close>, counts
  BUYs against SELLs, returns BUY with the mean of the BUY confidences, capped at 1, when
  BUYs outnumber SELLs, symmetrically SELL, and HOLD with confidence 0 on a tie or when no
  component has positive confidence; its output embeds the three components.
\<close>

theorem consensus_combiner:
  "getCombinedSignal ph symbol opts =
     combineSignals
       (getSMACrossoverSignal ph symbol (smaShort opts) (smaLong opts))
       (getRSISignal ph symbol (rsiPeriod opts) (rsiOverbought opts) (rsiOversold opts))
       (getBollingerBandsSignal ph symbol (bbPeriod opts) (bbStdDev opts)) \<and>
   (signal (combineSignals a b c), confidence (combineSignals a b c)) =
     consensus_reference a b c \<and>
   sma (combineSignals a b c) = a \<and> rsi (combineSignals a b c) = b \<and>
   bb (combineSignals a b c) = c"
  using combineSignals_reference [of a b c] combineSignals_components [of a b c]
  by (simp add: getCombinedSignal_def)

text \<open>Two BUYs of confidence 0.8 and 0.6 against one SELL of 0.9: BUY at 0.7.\<close>

theorem consensus_combiner_witness:
  "signal (combineSignals
       \<lparr>signal = buy, confidence = 0.8, reason = ''golden_cross''\<rparr>
       \<lparr>signal = buy, confidence = 0.6, reason = ''oversold''\<rparr>
       \<lparr>signal = sell, confidence = 0.9, reason = ''above_upper_band''\<rparr>) = buy \<and>
   confidence (combineSignals
       \<lparr>signal = buy, confidence = 0.8, reason = ''golden_cross''\<rparr>
       \<lparr>signal = buy, confidence = 0.6, reason = ''oversold''\<rparr>
       \<lparr>signal = sell, confidence = 0.9, reason = ''above_upper_band''\<rparr>) = 0.7"
  using consensus_combiner [of Map.empty "''EURUSD''" defaultOptions
       "\<lparr>signal = buy, confidence = 0.8, reason = ''golden_cross''\<rparr>"
       "\<lparr>signal = buy, confidence = 0.6, reason = ''oversold''\<rparr>"
       "\<lparr>signal = sell, confidence = 0.9, reason = ''above_upper_band''\<rparr>"]
  by (simp add: consensus_reference_def)

section \<open>Trading engine\<close>

lemma falling_len: "length (falling p) = 15"
  by (simp add: falling_def)

lemma rising_len: "length (rising p) = 15"
  by (simp add: rising_def)

text \<open>On fifteen falling points only the RSI strategy has enough history; its RSI is 0,
  and the consensus is BUY with confidence 1. On fifteen rising points the RSI is 100 and
  the consensus is SELL with confidence 1.\<close>

lemma combined_falling:
  assumes "ph s = Some (falling p)"
  shows "getCombinedSignal ph s defaultOptions = buySignal"
proof -
  have r: "calculateRSI ph s 14 = Some 0"
    unfolding calculateRSI_def getPriceHistory_def slice_last_def assms falling_def
    by (simp add: Let_def rsi_loop.simps upt_rec_numeral)
  have a: "calculateSMA ph s 50 = None"
    by (simp add: calculateSMA_def getPriceHistory_def slice_last_def assms falling_len Let_def)
  have b: "calculateBollingerBands ph s 20 k = None" for k
    by (simp add: calculateBollingerBands_def getPriceHistory_def slice_last_def assms
        falling_len Let_def)
  show ?thesis
    by (simp add: getCombinedSignal_def defaultOptions_def getSMACrossoverSignal_def a
        falsy_def getRSISignal_def r getBollingerBandsSignal_def b combineSignals_def Let_def
        buySignal_def)
qed

lemma combined_rising:
  assumes "ph s = Some (rising p)"
  shows "getCombinedSignal ph s defaultOptions = sellSignal"
proof -
  have r: "calculateRSI ph s 14 = Some 100"
    unfolding calculateRSI_def getPriceHistory_def slice_last_def assms rising_def
    by (simp add: Let_def rsi_loop.simps upt_rec_numeral)
  have a: "calculateSMA ph s 50 = None"
    by (simp add: calculateSMA_def getPriceHistory_def slice_last_def assms rising_len Let_def)
  have b: "calculateBollingerBands ph s 20 k = None" for k
    by (simp add: calculateBollingerBands_def getPriceHistory_def slice_last_def assms
        rising_len Let_def)
  show ?thesis
    by (simp add: getCombinedSignal_def defaultOptions_def getSMACrossoverSignal_def a
        falsy_def getRSISignal_def r getBollingerBandsSignal_def b combineSignals_def Let_def
        sellSignal_def)
qed

lemmas engine_defs = start_def newTradingEngine_def defaultEnv_def or_default_def falsy_def
  Let_def providerPrice_def executeBuy_def executeSell_def updatePosition_def
  buySignal_def sellSignal_def twoPrices_def yenPrices_def

subsection \<open>Sizing with the provider's prices\<close>

text \<open>The size is \<open>NaN\<close> for every symbol that has a price; the risk checks then come
  down to the test of the daily volume; and a call of \<open>executeBuy\<close> or \<open>executeSell\<close>
  with that size ends in the \<open>catch\<close> branch and changes nothing.\<close>

lemma positionSize_NaN:
  "prices e symbol = Some cp \<Longrightarrow> calculatePositionSize e symbol c = Some NaN"
  by (simp add: calculatePositionSize_def mid_def Let_def)

lemma passesRiskChecks_provider:
  "prices e symbol = Some cp \<Longrightarrow>
     passesRiskChecks e symbol sig pos = Some (currentDailyVolume e < maxDailyVolume e)"
  by (auto simp: passesRiskChecks_def positionSize_NaN mid_def Let_def split: option.splits)

lemma executeBuy_NaN: "prices e symbol = Some cp \<Longrightarrow> executeBuy e symbol NaN sig = (Failed, e)"
  by (simp add: executeBuy_def Let_def)

lemma executeSell_NaN: "prices e symbol = Some cp \<Longrightarrow> executeSell e symbol NaN sig = (Failed, e)"
  by (simp add: executeSell_def Let_def)

lemma evaluateSymbol_provider:
  assumes "prices e symbol = Some cp"
  shows "evaluateSymbol e symbol =
     (if confidence (consensus e symbol) < 0.6 then NotConfident
      else if riskManagement e \<and> \<not> currentDailyVolume e < maxDailyVolume e then RiskRejected
      else if signal (consensus e symbol) = buy \<and>
              compatible (signal (consensus e symbol)) (positions e symbol)
      then BuyCalled Failed
      else if signal (consensus e symbol) = sell \<and>
              compatible (signal (consensus e symbol)) (positions e symbol)
      then SellCalled Failed
      else NoTrade, e)"
  unfolding evaluateSymbol_def
  using assms
  by (auto simp: Let_def positionSize_NaN passesRiskChecks_provider executeBuy_NaN
        executeSell_NaN compatible_def split: option.splits)

lemma evaluateSymbol_state: "snd (evaluateSymbol e symbol) = e"
proof (cases "prices e symbol")
  case None
  then show ?thesis by (simp add: evaluateSymbol_def)
next
  case (Some cp)
  then show ?thesis by (simp add: evaluateSymbol_provider)
qed

lemma evaluateSymbols_state: "snd (evaluateSymbols e syms) = e"
proof (induction syms arbitrary: e)
  case Nil
  then show ?case by simp
next
  case (Cons s syms)
  have "snd (evaluateSymbol e s) = e" by (rule evaluateSymbol_state)
  with Cons [of e] show ?case
    by (simp add: split_beta Let_def)
qed

subsection \<open>Executions with a numeric quantity\<close>



lemma near_cap_buy_rejected:
  "executeBuy engineNearCap ''EURUSD'' (Num 10000) buySignal = (Rejected, engineNearCap)"
  by (simp add: engineNearCap_def engine_defs)

lemma near_cap_buy_executed:
  "executeBuy engineNearCap ''AUDUSD'' (Num 10000) buySignal = (Executed audTrade, afterAudBuy)"
  by (simp add: afterAudBuy_def audTrade_def engineNearCap_def engine_defs)

lemma near_cap_sell_executed:
  "executeSell engineSellNearCap ''EURUSD'' (Num 10000) sellSignal =
     (Executed eurSellTrade, afterEurSell)"
  by (simp add: afterEurSell_def eurSellTrade_def engineSellNearCap_def engine_defs)

lemma yen_buy_executed:
  "executeBuy engineYen ''USDJPY'' (Num 10000) buySignal = (Executed yenTrade, afterYenBuy)"
  by (simp add: afterYenBuy_def yenTrade_def engineYen_def engine_defs)

lemma yen_signal: "consensus engineYen ''USDJPY'' = buySignal"
  by (rule combined_falling [of _ _ "148.514"]) (simp add: engineYen_def engine_defs)

lemma yen_risk_signal: "consensus engineYenRisk ''USDJPY'' = buySignal"
  by (rule combined_falling [of _ _ "148.514"]) (simp add: engineYenRisk_def engine_defs)

lemma yen_price: "prices engineYen ''USDJPY'' = Some (providerPrice 148.49 148.51)"
  by (simp add: engineYen_def engine_defs)

lemma yen_risk_price: "prices engineYenRisk ''USDJPY'' = Some (providerPrice 148.49 148.51)"
  by (simp add: engineYenRisk_def engine_defs)

lemma yen_eval: "evaluateSymbol engineYen ''USDJPY'' = (BuyCalled Failed, engineYen)"
  unfolding evaluateSymbol_provider [OF yen_price] yen_signal
  by (simp add: buySignal_def compatible_def engineYen_def engine_defs)

lemma yen_risk_eval: "evaluateSymbol engineYenRisk ''USDJPY'' = (BuyCalled Failed, engineYenRisk)"
  unfolding evaluateSymbol_provider [OF yen_risk_price] yen_risk_signal
  by (simp add: buySignal_def compatible_def engineYenRisk_def engine_defs)

subsection \<open>When a trade is attempted\<close>



subsection \<open>The risk gate\<close>

text \<open>
  Claim C6, at a failing input. The engine's \<open>riskManagement\<close> flag is set exactly when
  the configuration value \<open>RISK_MANAGEMENT\<close> is the string \<open>true\<close>, and under the default
  configuration it is unset: on \<open>USDJPY\<close>, with a BUY consensus of confidence 1 and no
  position, \<open>evaluateSymbol\<close> goes to \<open>executeBuy\<close> without any risk check. The size it
  passes is \<open>NaN\<close>, though, because \<open>calculatePositionSize\<close> reads a \<open>mid\<close> that the
  provider's price does not have: the \<open>INSERT\<close> fails and no trade is executed, here or
  on any other input of \<open>evaluateSymbol\<close>. Given the 10,000 units the sizing aims at,
  \<open>executeBuy\<close> does execute the trade, of notional 1,485,100, more than 10% of the daily
  cap. With \<open>RISK_MANAGEMENT=true\<close> the checks are consulted, and pass.
\<close>

theorem risk_gate_then_no_execution:
  "(riskManagement (newTradingEngine ev pr syms ph db stored) \<longleftrightarrow>
      RISK_MANAGEMENT ev = Some ''true'') \<and>
   RISK_MANAGEMENT defaultEnv = None \<and>
   \<not> riskManagement engineYen \<and>
   consensus engineYen ''USDJPY'' = buySignal \<and>
   positions engineYen ''USDJPY'' = None \<and>
   calculatePositionSize engineYen ''USDJPY'' (confidence buySignal) = Some NaN \<and>
   evaluateSymbol engineYen ''USDJPY'' = (BuyCalled Failed, engineYen) \<and>
   trades engineYen = [] \<and>
   snd (evaluateSymbol e symbol) = e \<and>
   executeBuy engineYen ''USDJPY'' (Num 10000) buySignal = (Executed yenTrade, afterYenBuy) \<and>
   t_value yenTrade > maxDailyVolume engineYen * 0.1 \<and>
   riskManagement engineYenRisk \<and>
   passesRiskChecks engineYenRisk ''USDJPY'' buySignal None = Some True \<and>
   evaluateSymbol engineYenRisk ''USDJPY'' = (BuyCalled Failed, engineYenRisk)"
proof (intro conjI)
  show "riskManagement (newTradingEngine ev pr syms ph db stored) \<longleftrightarrow>
      RISK_MANAGEMENT ev = Some ''true''"
    by (simp add: newTradingEngine_def)
  show "RISK_MANAGEMENT defaultEnv = None"
    by (simp add: defaultEnv_def)
  show "\<not> riskManagement engineYen"
    by (simp add: engineYen_def engine_defs)
  show "consensus engineYen ''USDJPY'' = buySignal"
    by (rule yen_signal)
  show "positions engineYen ''USDJPY'' = None"
    by (simp add: engineYen_def engine_defs)
  show "calculatePositionSize engineYen ''USDJPY'' (confidence buySignal) = Some NaN"
    by (rule positionSize_NaN [OF yen_price])
  show "evaluateSymbol engineYen ''USDJPY'' = (BuyCalled Failed, engineYen)"
    by (rule yen_eval)
  show "trades engineYen = []"
    by (simp add: engineYen_def engine_defs)
  show "snd (evaluateSymbol e symbol) = e"
    by (rule evaluateSymbol_state)
  show "executeBuy engineYen ''USDJPY'' (Num 10000) buySignal = (Executed yenTrade, afterYenBuy)"
    by (rule yen_buy_executed)
  show "t_value yenTrade > maxDailyVolume engineYen * 0.1"
    by (simp add: yenTrade_def engineYen_def engine_defs)
  show "riskManagement engineYenRisk"
    by (simp add: engineYenRisk_def engine_defs)
  show "passesRiskChecks engineYenRisk ''USDJPY'' buySignal None = Some True"
    unfolding passesRiskChecks_provider [OF yen_risk_price]
    by (simp add: engineYenRisk_def engine_defs)
  show "evaluateSymbol engineYenRisk ''USDJPY'' = (BuyCalled Failed, engineYenRisk)"
    by (rule yen_risk_eval)
qed

text \<open>The evaluation of \<open>USDJPY\<close> under the default configuration leaves the trades
  empty.\<close>

theorem risk_gate_then_no_execution_witness:
  "\<not> riskManagement engineYen \<and>
   fst (evaluateSymbol engineYen ''USDJPY'') = BuyCalled Failed \<and>
   trades (snd (evaluateSymbol engineYen ''USDJPY'')) = []"
proof -
  note t = risk_gate_then_no_execution [of defaultEnv yenPrices "[''USDJPY'']"
      "[''USDJPY'' \<mapsto> falling 148.514]" Map.empty None engineYen "''USDJPY''"]
  from t have "\<not> riskManagement engineYen" by blast
  moreover from t have "evaluateSymbol engineYen ''USDJPY'' = (BuyCalled Failed, engineYen)"
    by blast
  moreover from t have "trades engineYen = []" by blast
  ultimately show ?thesis by simp
qed

subsection \<open>The daily cap\<close>

lemma near_cap_cycle:
  "evaluateTradingOpportunities engineNearCap =
     ([BuyCalled Failed, BuyCalled Failed], engineNearCap)"
proof -
  have p1: "prices engineNearCap ''EURUSD'' = Some (providerPrice 1.0849 1.0851)"
    and p2: "prices engineNearCap ''AUDUSD'' = Some (providerPrice 0.6849 0.6851)"
    by (simp_all add: engineNearCap_def engine_defs)
  have s1: "consensus engineNearCap ''EURUSD'' = buySignal"
    by (rule combined_falling [of _ _ "1.099"]) (simp add: engineNearCap_def engine_defs)
  have s2: "consensus engineNearCap ''AUDUSD'' = buySignal"
    by (rule combined_falling [of _ _ "0.699"]) (simp add: engineNearCap_def engine_defs)
  have c: "positions engineNearCap = Map.empty" "\<not> riskManagement engineNearCap"
    "isActive engineNearCap" "currentDailyVolume engineNearCap < maxDailyVolume engineNearCap"
    "symbols engineNearCap = [''EURUSD'', ''AUDUSD'']"
    by (simp_all add: engineNearCap_def engine_defs)
  have e1: "evaluateSymbol engineNearCap ''EURUSD'' = (BuyCalled Failed, engineNearCap)"
    unfolding evaluateSymbol_provider [OF p1] s1
    by (simp add: c buySignal_def compatible_def)
  have e2: "evaluateSymbol engineNearCap ''AUDUSD'' = (BuyCalled Failed, engineNearCap)"
    unfolding evaluateSymbol_provider [OF p2] s2
    by (simp add: c buySignal_def compatible_def)
  show ?thesis
    using c by (simp add: evaluateTradingOpportunities_def e1 e2)
qed

text \<open>
  Claim C1, at a failing input. The engine runs with the default cap of 10,000,000 and
  has traded 9,990,000 today. \<open>executeBuy\<close> of 10,000 \<open>EURUSD\<close> at the ask 1.0851 would
  take the day past the cap: it returns \<open>null\<close> and leaves the engine as it was, still
  active. The next \<open>executeBuy\<close>, of 10,000 \<open>AUDUSD\<close> for 6,851, is executed, and so is
  an \<open>executeSell\<close> of 10,000 \<open>EURUSD\<close>; an evaluation cycle run after the rejection
  leaves the engine active as well.
\<close>

theorem daily_cap_rejection_leaves_engine_running:
  "currentDailyVolume engineNearCap + 10000 * 1.0851 > maxDailyVolume engineNearCap \<and>
   executeBuy engineNearCap ''EURUSD'' (Num 10000) buySignal = (Rejected, engineNearCap) \<and>
   isActive engineNearCap \<and>
   executeBuy engineNearCap ''AUDUSD'' (Num 10000) buySignal = (Executed audTrade, afterAudBuy) \<and>
   trades afterAudBuy = [audTrade] \<and>
   currentDailyVolume afterAudBuy = 9996851 \<and>
   fst (executeSell engineNearCap ''EURUSD'' (Num 10000) sellSignal) = Executed eurSellTrade \<and>
   isActive (snd (evaluateTradingOpportunities engineNearCap))"
proof (intro conjI)
  show "currentDailyVolume engineNearCap + 10000 * 1.0851 > maxDailyVolume engineNearCap"
    by (simp add: engineNearCap_def engine_defs)
  show "executeBuy engineNearCap ''EURUSD'' (Num 10000) buySignal = (Rejected, engineNearCap)"
    by (rule near_cap_buy_rejected)
  show "isActive engineNearCap"
    by (simp add: engineNearCap_def engine_defs)
  show "executeBuy engineNearCap ''AUDUSD'' (Num 10000) buySignal =
      (Executed audTrade, afterAudBuy)"
    by (rule near_cap_buy_executed)
  show "trades afterAudBuy = [audTrade]"
    by (simp add: afterAudBuy_def)
  show "currentDailyVolume afterAudBuy = 9996851"
    by (simp add: afterAudBuy_def)
  show "fst (executeSell engineNearCap ''EURUSD'' (Num 10000) sellSignal) =
      Executed eurSellTrade"
    by (simp add: eurSellTrade_def engineNearCap_def engine_defs)
  show "isActive (snd (evaluateTradingOpportunities engineNearCap))"
    unfolding near_cap_cycle by (simp add: engineNearCap_def engine_defs)
qed

text \<open>After the rejection the engine is still active and the next BUY makes a trade.\<close>

theorem daily_cap_rejection_leaves_engine_running_witness:
  "isActive (snd (executeBuy engineNearCap ''EURUSD'' (Num 10000) buySignal)) \<and>
   fst (executeBuy (snd (executeBuy engineNearCap ''EURUSD'' (Num 10000) buySignal))
          ''AUDUSD'' (Num 10000) buySignal) = Executed audTrade"
proof -
  note t = daily_cap_rejection_leaves_engine_running
  from t have "executeBuy engineNearCap ''EURUSD'' (Num 10000) buySignal =
      (Rejected, engineNearCap)"
    by (rule conjunct2 [THEN conjunct1])
  moreover from t have "isActive engineNearCap"
    by (rule conjunct2 [THEN conjunct2, THEN conjunct1])
  moreover from t have "executeBuy engineNearCap ''AUDUSD'' (Num 10000) buySignal =
      (Executed audTrade, afterAudBuy)"
    by (rule conjunct2 [THEN conjunct2, THEN conjunct2, THEN conjunct1])
  ultimately show ?thesis by simp
qed

text \<open>
  Claim C2, at a failing input. The engine runs with the default cap of 10,000,000 and
  has traded 9,995,000 today. \<open>executeSell\<close> of 10,000 \<open>EURUSD\<close> at the bid 1.0849 makes
  no test against the cap: the trade is executed and the day's volume becomes
  10,005,849. \<open>executeBuy\<close> of the same quantity on the same engine is rejected.
\<close>

theorem sell_exceeds_daily_cap:
  "currentDailyVolume engineSellNearCap \<le> maxDailyVolume engineSellNearCap \<and>
   executeSell engineSellNearCap ''EURUSD'' (Num 10000) sellSignal =
     (Executed eurSellTrade, afterEurSell) \<and>
   t_value eurSellTrade = t_quantity eurSellTrade * t_price eurSellTrade \<and>
   trades afterEurSell = [eurSellTrade] \<and>
   currentDailyVolume afterEurSell = 10005849 \<and>
   maxDailyVolume afterEurSell = 10000000 \<and>
   currentDailyVolume afterEurSell > maxDailyVolume afterEurSell \<and>
   executeBuy engineSellNearCap ''EURUSD'' (Num 10000) buySignal =
     (Rejected, engineSellNearCap)"
proof (intro conjI)
  show "currentDailyVolume engineSellNearCap \<le> maxDailyVolume engineSellNearCap"
    by (simp add: engineSellNearCap_def engine_defs)
  show "executeSell engineSellNearCap ''EURUSD'' (Num 10000) sellSignal =
     (Executed eurSellTrade, afterEurSell)"
    by (rule near_cap_sell_executed)
  show "t_value eurSellTrade = t_quantity eurSellTrade * t_price eurSellTrade"
    by (simp add: eurSellTrade_def)
  show "trades afterEurSell = [eurSellTrade]"
    by (simp add: afterEurSell_def)
  show "currentDailyVolume afterEurSell = 10005849"
    by (simp add: afterEurSell_def)
  show "maxDailyVolume afterEurSell = 10000000"
    by (simp add: afterEurSell_def engineSellNearCap_def engine_defs)
  show "currentDailyVolume afterEurSell > maxDailyVolume afterEurSell"
    by (simp add: afterEurSell_def engineSellNearCap_def engine_defs)
  show "executeBuy engineSellNearCap ''EURUSD'' (Num 10000) buySignal =
     (Rejected, engineSellNearCap)"
    by (simp add: engineSellNearCap_def engine_defs)
qed

text \<open>After the SELL the day's volume is above the cap.\<close>

theorem sell_exceeds_daily_cap_witness:
  "currentDailyVolume (snd (executeSell engineSellNearCap ''EURUSD'' (Num 10000) sellSignal)) >
     maxDailyVolume (snd (executeSell engineSellNearCap ''EURUSD'' (Num 10000) sellSignal))"
proof -
  note t = sell_exceeds_daily_cap
  from t have "executeSell engineSellNearCap ''EURUSD'' (Num 10000) sellSignal =
     (Executed eurSellTrade, afterEurSell)"
    by (rule conjunct2 [THEN conjunct1])
  moreover from t have "currentDailyVolume afterEurSell > maxDailyVolume afterEurSell"
    by blast
  ultimately show ?thesis by simp
qed

subsection \<open>Positions\<close>

text \<open>
  Claim C3, amended. \<open>executeSell\<close> passes \<open>updatePosition\<close> the negated quantity and
  the closing flag, \<open>executeBuy\<close> the quantity and no closing flag. For every trade on
  the opposite side of an existing position \<open>q0\<close> with a quantity strictly greater than
  \<open>|q0|\<close> (a flip), a SELL on a long as well as a BUY on a short, the stored quantity
  becomes \<open>q0\<close> plus the signed quantity, of the opposite sign to \<open>q0\<close>; the stored total
  value is the stored quantity times the stored average price; and no profit or loss is
  booked: the \<open>pnl\<close> of the row is left as it was.
\<close>

theorem flip_amended:
  assumes "db symbol = Some p"
  shows "(0 < quantity p \<and> quantity p < qty \<longrightarrow>
            (\<exists>p'. updatePosition db symbol (- qty) prc True symbol = Some p' \<and>
               quantity p' = quantity p - qty \<and> quantity p' < 0 \<and>
               total_value p' = quantity p' * avg_price p' \<and> pnl p' = pnl p)) \<and>
         (quantity p < 0 \<and> - quantity p < qty \<longrightarrow>
            (\<exists>p'. updatePosition db symbol qty prc False symbol = Some p' \<and>
               quantity p' = quantity p + qty \<and> 0 < quantity p' \<and>
               total_value p' = quantity p' * avg_price p' \<and> pnl p' = pnl p))"
  using assms by (simp add: updatePosition_def Let_def)

text \<open>From long 10,000, a SELL of 15,000 leaves the quantity - 5,000; from short
  10,000, a BUY of 15,000 leaves 5,000; the \<open>pnl\<close> stays at 0 in both.\<close>

theorem flip_amended_witness:
  "map_option quantity (updatePosition longPosition ''EURUSD'' (- 15000) 1.09 True ''EURUSD'')
     = Some (- 5000) \<and>
   map_option pnl (updatePosition longPosition ''EURUSD'' (- 15000) 1.09 True ''EURUSD'')
     = Some 0 \<and>
   map_option quantity (updatePosition shortPosition ''EURUSD'' 15000 1.09 False ''EURUSD'')
     = Some 5000 \<and>
   map_option pnl (updatePosition shortPosition ''EURUSD'' 15000 1.09 False ''EURUSD'')
     = Some 0"
proof -
  have a: "longPosition ''EURUSD'' =
      Some \<lparr>quantity = 10000, avg_price = 1.08, total_value = 10800, pnl = 0\<rparr>"
    by (simp add: longPosition_def)
  have b: "shortPosition ''EURUSD'' =
      Some \<lparr>quantity = - 10000, avg_price = 1.08, total_value = - 10800, pnl = 0\<rparr>"
    by (simp add: shortPosition_def)
  from flip_amended [of longPosition "''EURUSD''"
      "\<lparr>quantity = 10000, avg_price = 1.08, total_value = 10800, pnl = 0\<rparr>" 15000 "1.09"] a
  have 1: "map_option quantity
        (updatePosition longPosition ''EURUSD'' (- 15000) 1.09 True ''EURUSD'') = Some (- 5000) \<and>
      map_option pnl
        (updatePosition longPosition ''EURUSD'' (- 15000) 1.09 True ''EURUSD'') = Some 0"
    by auto
  from flip_amended [of shortPosition "''EURUSD''"
      "\<lparr>quantity = - 10000, avg_price = 1.08, total_value = - 10800, pnl = 0\<rparr>" 15000 "1.09"] b
  have 2: "map_option quantity
        (updatePosition shortPosition ''EURUSD'' 15000 1.09 False ''EURUSD'') = Some 5000 \<and>
      map_option pnl
        (updatePosition shortPosition ''EURUSD'' 15000 1.09 False ''EURUSD'') = Some 0"
    by auto
  from 1 2 show ?thesis by simp
qed

text \<open>
  Claim C3 as stated fails on scenario S4: from long 10,000 at 1.0800, the SELL of
  15,000 at 1.0900 leaves - 5,000 at 1.0800, not at 1.0900, and the profit of 100 is
  recorded nowhere in the row. It fails on the mirrored flip too: from short 10,000 at
  1.0800, the BUY of 15,000 at 1.0900 leaves 5,000 at 1.1100.
\<close>

theorem flip_sell_counterexample:
  "updatePosition longPosition ''EURUSD'' (- 15000) 1.09 True ''EURUSD'' =
     Some \<lparr>quantity = - 5000, avg_price = 1.08, total_value = - 5400, pnl = 0\<rparr> \<and>
   map_option avg_price (updatePosition longPosition ''EURUSD'' (- 15000) 1.09 True ''EURUSD'')
     \<noteq> Some 1.09 \<and>
   updatePosition shortPosition ''EURUSD'' 15000 1.09 False ''EURUSD'' =
     Some \<lparr>quantity = 5000, avg_price = 1.11, total_value = 5550, pnl = 0\<rparr> \<and>
   map_option avg_price (updatePosition shortPosition ''EURUSD'' 15000 1.09 False ''EURUSD'')
     \<noteq> Some 1.09"
  by (simp add: updatePosition_def longPosition_def shortPosition_def Let_def)

lemma afterBuy_eq:
  "afterBuy = engineFlat\<lparr>trades := [\<lparr>t_symbol = ''EURUSD'', t_side = buy, t_quantity = 10000,
         t_price = 1.0851, t_value = 10851, t_algorithm = ''combined'', t_status = ''executed'',
         signal_data = buySignal\<rparr>],
        positions := [''EURUSD'' \<mapsto> \<lparr>quantity = 10000, avg_price = 1.0851,
                        total_value = 10851, pnl = 0\<rparr>],
        currentDailyVolume := 10851\<rparr>"
  unfolding afterBuy_def
  by (simp add: engineFlat_def engine_defs)

lemma afterSell_state:
  "positions afterSell ''EURUSD'' =
     Some \<lparr>quantity = 0, avg_price = 0, total_value = 0, pnl = 0\<rparr> \<and>
   prices afterSell = twoPrices"
  unfolding afterSell_def afterBuy_eq
  by (simp add: engineFlat_def engine_defs)

lemma afterSecondSell_position:
  "positions afterSecondSell ''EURUSD'' =
     Some \<lparr>quantity = - 10000, avg_price = 0, total_value = 0, pnl = 0\<rparr>"
  unfolding afterSecondSell_def
  using afterSell_state
  by (simp add: executeSell_def updatePosition_def twoPrices_def providerPrice_def Let_def)

text \<open>
  Claim C4, at failing inputs. A SELL applied to a flat row (quantity 0, average price
  0) stores a short with average price 0, by the engine's \<open>updatePosition\<close> and by
  \<open>PositionModel.updatePosition\<close> alike: the quantity is not 0 and the average price is.
  Such a row is what a closing SELL leaves: \<open>executeBuy\<close> of 10,000 from no position,
  then \<open>executeSell\<close> of 10,000 twice, end there. A short of 10,000 at 1 partially
  covered by a BUY of 6,000 at 2 is stored with the average price - 0.5, again by both
  functions.
\<close>

theorem position_invariant_broken:
  "updatePosition flatRow ''EURUSD'' (- 10000) 1.0849 True ''EURUSD'' =
     Some \<lparr>quantity = - 10000, avg_price = 0, total_value = 0, pnl = 0\<rparr> \<and>
   PositionModel_updatePosition flatRow ''EURUSD'' (- 10000) 1.0849 True ''EURUSD'' =
     Some \<lparr>quantity = - 10000, avg_price = 0, total_value = 0, pnl = 0\<rparr> \<and>
   positions afterBuy ''EURUSD'' =
     Some \<lparr>quantity = 10000, avg_price = 1.0851, total_value = 10851, pnl = 0\<rparr> \<and>
   positions afterSell ''EURUSD'' = flatRow ''EURUSD'' \<and>
   positions afterSecondSell ''EURUSD'' =
     Some \<lparr>quantity = - 10000, avg_price = 0, total_value = 0, pnl = 0\<rparr> \<and>
   updatePosition (updatePosition Map.empty ''EURUSD'' (- 10000) 1 True)
       ''EURUSD'' 6000 2 False ''EURUSD'' =
     Some \<lparr>quantity = - 4000, avg_price = - (1 / 2), total_value = 2000, pnl = 0\<rparr> \<and>
   PositionModel_updatePosition (PositionModel_updatePosition Map.empty ''EURUSD'' (- 10000) 1 True)
       ''EURUSD'' 6000 2 False ''EURUSD'' =
     Some \<lparr>quantity = - 4000, avg_price = - (1 / 2), total_value = 2000, pnl = 0\<rparr>"
proof (intro conjI)
  show "updatePosition flatRow ''EURUSD'' (- 10000) 1.0849 True ''EURUSD'' =
     Some \<lparr>quantity = - 10000, avg_price = 0, total_value = 0, pnl = 0\<rparr>"
    by (simp add: updatePosition_def flatRow_def Let_def)
  show "PositionModel_updatePosition flatRow ''EURUSD'' (- 10000) 1.0849 True ''EURUSD'' =
     Some \<lparr>quantity = - 10000, avg_price = 0, total_value = 0, pnl = 0\<rparr>"
    by (simp add: PositionModel_updatePosition_def flatRow_def Let_def)
  show "positions afterBuy ''EURUSD'' =
     Some \<lparr>quantity = 10000, avg_price = 1.0851, total_value = 10851, pnl = 0\<rparr>"
    by (simp add: afterBuy_eq)
  show "positions afterSell ''EURUSD'' = flatRow ''EURUSD''"
    by (simp add: afterSell_state flatRow_def)
  show "positions afterSecondSell ''EURUSD'' =
     Some \<lparr>quantity = - 10000, avg_price = 0, total_value = 0, pnl = 0\<rparr>"
    by (rule afterSecondSell_position)
  show "updatePosition (updatePosition Map.empty ''EURUSD'' (- 10000) 1 True)
       ''EURUSD'' 6000 2 False ''EURUSD'' =
     Some \<lparr>quantity = - 4000, avg_price = - (1 / 2), total_value = 2000, pnl = 0\<rparr>"
    by (simp add: updatePosition_def Let_def)
  show "PositionModel_updatePosition
       (PositionModel_updatePosition Map.empty ''EURUSD'' (- 10000) 1 True)
       ''EURUSD'' 6000 2 False ''EURUSD'' =
     Some \<lparr>quantity = - 4000, avg_price = - (1 / 2), total_value = 2000, pnl = 0\<rparr>"
    by (simp add: PositionModel_updatePosition_def Let_def)
qed

text \<open>The row after the SELL on the flat row: ten thousand short at an average price of
  0.\<close>

theorem position_invariant_broken_witness:
  "map_option quantity (updatePosition flatRow ''EURUSD'' (- 10000) 1.0849 True ''EURUSD'')
     = Some (- 10000) \<and>
   map_option avg_price (updatePosition flatRow ''EURUSD'' (- 10000) 1.0849 True ''EURUSD'')
     = Some 0"
proof -
  from position_invariant_broken
  have "updatePosition flatRow ''EURUSD'' (- 10000) 1.0849 True ''EURUSD'' =
     Some \<lparr>quantity = - 10000, avg_price = 0, total_value = 0, pnl = 0\<rparr>"
    by (rule conjunct1)
  then show ?thesis by simp
qed

section \<open>Backtest\<close>

lemma getIntervalMilliseconds_pos: "0 < getIntervalMilliseconds interval"
  by (simp add: getIntervalMilliseconds_def)

lemma bar_count_step:
  assumes "current \<le> endDate"
  shows "bar_count interval current endDate =
         Suc (bar_count interval (current + getIntervalMilliseconds interval) endDate)"
proof -
  define ms where "ms = getIntervalMilliseconds interval"
  have pos: "0 < ms" by (simp add: ms_def getIntervalMilliseconds_pos)
  show ?thesis
  proof (cases "current + ms \<le> endDate")
    case True
    have "(endDate - current) div ms = (endDate - (current + ms)) div ms + 1"
    proof -
      have "endDate - current = (endDate - (current + ms)) + ms" by simp
      then show ?thesis using pos
        by (metis div_add_self2 less_irrefl)
    qed
    moreover have "0 \<le> (endDate - (current + ms)) div ms"
      using True pos by (simp add: pos_imp_zdiv_nonneg_iff)
    ultimately show ?thesis
      using assms True by (simp add: bar_count_def ms_def [symmetric] nat_add_distrib)
  next
    case False
    then have "(endDate - current) div ms = 0"
      using assms pos by (simp add: div_pos_pos_trivial)
    then show ?thesis
      using assms False by (simp add: bar_count_def ms_def [symmetric])
  qed
qed

text \<open>The loop reads four draws per bar and nothing beyond them.\<close>

lemma generate_loop_draws:
  assumes "\<forall>j. k \<le> j \<and> j < k + 4 * bar_count interval current endDate \<longrightarrow> rnd1 j = rnd2 j"
  shows "generate_loop rnd1 symbol interval endDate current prc k data =
         generate_loop rnd2 symbol interval endDate current prc k data"
  using assms
proof (induction rnd1 symbol interval endDate current prc k data rule: generate_loop.induct)
  case (1 rnd symbol interval endDate current prc k data)
  show ?case
  proof (cases "current \<le> endDate")
    case False
    then show ?thesis by (simp add: generate_loop.simps)
  next
    case True
    note cnt = bar_count_step [OF True, of interval]
    have d: "rnd k = rnd2 k" "rnd (k + 1) = rnd2 (k + 1)" "rnd (k + 2) = rnd2 (k + 2)"
      "rnd (k + 3) = rnd2 (k + 3)"
      using "1.prems" by (simp_all add: cnt)
    have rest: "\<forall>j. k + 4 \<le> j \<and>
        j < k + 4 + 4 * bar_count interval (current + getIntervalMilliseconds interval) endDate \<longrightarrow>
        rnd j = rnd2 j"
      using "1.prems" by (simp add: cnt)
    note ih = "1.IH" [OF True refl refl refl refl refl refl rest]
    show ?thesis
      apply (subst generate_loop.simps [of rnd symbol interval endDate current prc k data])
      apply (subst generate_loop.simps [of rnd2 symbol interval endDate current prc k data])
      apply (simp only: True if_True Let_def)
      apply (subst ih)
      apply (simp only: d)
      done
  qed
qed

lemmas backtest_defs = backtest_on_def backtest_step_def addPriceData_def maxHistory_def
  getCombinedSignal_def resolveOptions_def rsi1_def getSMACrossoverSignal_def calculateSMA_def
  getPriceHistory_def slice_last_def falsy_def getRSISignal_def calculateRSI_def rsi_loop.simps
  getBollingerBandsSignal_def calculateBollingerBands_def combineSignals_def Let_def

lemma bars_low:
  "generateHistoricalData noPrices draws_low ''EURUSD'' 0 3600000 ''1hour'' =
     [\<lparr>bar_timestamp = 0, bar_symbol = ''EURUSD'', bar_open = 1, bar_high = 1,
       bar_low = 0.999, bar_close = 0.999, bar_volume = 100000\<rparr>,
      \<lparr>bar_timestamp = 3600000, bar_symbol = ''EURUSD'', bar_open = 0.999, bar_high = 0.999,
       bar_low = 0.998001, bar_close = 0.998001, bar_volume = 100000\<rparr>]"
  by (simp add: generateHistoricalData_def generate_loop.simps getIntervalMilliseconds_def
      volatility_def draws_low_def noPrices_def Let_def)

lemma bars_mid:
  "generateHistoricalData noPrices draws_mid ''EURUSD'' 0 3600000 ''1hour'' =
     [\<lparr>bar_timestamp = 0, bar_symbol = ''EURUSD'', bar_open = 1, bar_high = 1,
       bar_low = 1, bar_close = 1, bar_volume = 600000\<rparr>,
      \<lparr>bar_timestamp = 3600000, bar_symbol = ''EURUSD'', bar_open = 1, bar_high = 1,
       bar_low = 1, bar_close = 1, bar_volume = 600000\<rparr>]"
  by (simp add: generateHistoricalData_def generate_loop.simps getIntervalMilliseconds_def
      volatility_def draws_mid_def noPrices_def Let_def)

lemma run_low:
  "map_option (\<lambda>r. totalTrades (r_stats r))
     (runBacktest noPrices draws_low ''EURUSD'' 0 3600000 ''combined'' rsi1) = Some 1"
  unfolding runBacktest_def bars_low
  by (simp add: backtest_defs)

lemma run_mid:
  "map_option (\<lambda>r. totalTrades (r_stats r))
     (runBacktest noPrices draws_mid ''EURUSD'' 0 3600000 ''combined'' rsi1) = Some 0"
  unfolding runBacktest_def bars_mid
  by (simp add: backtest_defs)

text \<open>
  Claim C5, amended. Two backtest runs with identical inputs (symbol, start, end,
  parameters) and the same simulator prices whose draws of \<open>Math.random()\<close> agree on the
  first four draws per generated bar produce identical bars and an identical result:
  trade list and metrics (total trades, win rate, total PnL, final balance, return
  percent). The bars, and with them the result, are a function of the inputs and of these
  draws; the inputs alone do not determine them.
\<close>

theorem backtest_same_draws:
  assumes "\<forall>j < 4 * bar_count ''1hour'' startDate endDate. rnd1 j = rnd2 j"
  shows "generateHistoricalData simPrices rnd1 symbol startDate endDate ''1hour'' =
           generateHistoricalData simPrices rnd2 symbol startDate endDate ''1hour'' \<and>
         runBacktest simPrices rnd1 symbol startDate endDate algorithm params =
           runBacktest simPrices rnd2 symbol startDate endDate algorithm params"
proof -
  have "generateHistoricalData simPrices rnd1 symbol startDate endDate ''1hour'' =
        generateHistoricalData simPrices rnd2 symbol startDate endDate ''1hour''"
    unfolding generateHistoricalData_def Let_def
    by (rule generate_loop_draws) (use assms in simp)
  then show ?thesis by (simp add: runBacktest_def)
qed

text \<open>Over two bars, draws that agree on the first eight and differ afterwards give the
  same run.\<close>

theorem backtest_same_draws_witness:
  "draws_mid 8 \<noteq> draws_mid_then_low 8 \<and>
   runBacktest noPrices draws_mid ''EURUSD'' 0 3600000 ''combined'' rsi1 =
   runBacktest noPrices draws_mid_then_low ''EURUSD'' 0 3600000 ''combined'' rsi1"
proof -
  have "\<forall>j < 4 * bar_count ''1hour'' 0 3600000. draws_mid j = draws_mid_then_low j"
    by (simp add: bar_count_def getIntervalMilliseconds_def draws_mid_def
        draws_mid_then_low_def)
  from backtest_same_draws [OF this, of noPrices "''EURUSD''" "''combined''" rsi1]
  have "runBacktest noPrices draws_mid ''EURUSD'' 0 3600000 ''combined'' rsi1 =
      runBacktest noPrices draws_mid_then_low ''EURUSD'' 0 3600000 ''combined'' rsi1"
    by (rule conjunct2)
  moreover have "draws_mid 8 \<noteq> draws_mid_then_low 8"
    by (simp add: draws_mid_def draws_mid_then_low_def)
  ultimately show ?thesis by (rule conjI [rotated])
qed

text \<open>
  Claim C5 as stated fails: the same symbol, start, end and parameters, run once with
  every draw at 0 and once with every draw at 0.5, give different bars, and one run makes
  a trade where the other makes none.
\<close>

theorem backtest_draws_counterexample:
  "generateHistoricalData noPrices draws_low ''EURUSD'' 0 3600000 ''1hour'' \<noteq>
   generateHistoricalData noPrices draws_mid ''EURUSD'' 0 3600000 ''1hour'' \<and>
   map_option (\<lambda>r. totalTrades (r_stats r))
     (runBacktest noPrices draws_low ''EURUSD'' 0 3600000 ''combined'' rsi1) = Some 1 \<and>
   map_option (\<lambda>r. totalTrades (r_stats r))
     (runBacktest noPrices draws_mid ''EURUSD'' 0 3600000 ''combined'' rsi1) = Some 0"
  unfolding bars_low bars_mid run_low run_mid by simp

end
